theory Spec2Isabelle
  imports Main "HOL-Library.Word" "HOL-Library.List_Lexorder" "HOL-Library.Char_ord"
begin

section \<open>ReaderShim.cpp: the data the shim works on\<close>

text \<open>
  The model follows \<^verbatim>\<open>Source/Readers/ReaderLib/ReaderShim.cpp\<close> function by function.
  Mutation of the shim object and of the caller's matrices is explicit state passing;
  \<^verbatim>\<open>RuntimeError\<close>, a failing \<^verbatim>\<open>assert\<close> and undefined behaviour are error values.
  A \<^verbatim>\<open>size_t\<close> is a \<open>nat\<close> (64 bits, the conversions from and to \<^verbatim>\<open>int\<close> written out),
  a \<^verbatim>\<open>std::wstring\<close> is a \<open>string\<close>, a raw buffer (\<^verbatim>\<open>void*\<close>) is a list of bytes.
\<close>

type_synonym byte = "8 word"
type_synonym wstring = string
type_synonym size_t = nat

text \<open>The implicit conversion \<^verbatim>\<open>int\<close> to \<^verbatim>\<open>size_t\<close> and the cast \<^verbatim>\<open>(int) rowNumber\<close>.\<close>

definition size_t_of_int :: "int \<Rightarrow> size_t" where
  "size_t_of_int i = nat (i mod 2 ^ 64)"

definition int_of_size_t :: "size_t \<Rightarrow> int" where
  "int_of_size_t n = (int n + 2 ^ 31) mod 2 ^ 32 - 2 ^ 31"

text \<open>
  Build parameters: the template argument \<^verbatim>\<open>ElemType\<close> (float or double) enters only through
  its size, \<^verbatim>\<open>IndexType\<close> is the macro \<^verbatim>\<open>CPUSPARSE_INDEX_TYPE\<close> (defined outside this file),
  and \<^verbatim>\<open>NDEBUG\<close> decides whether \<^verbatim>\<open>assert\<close> is compiled in.
\<close>

record build =
  sizeof_ElemType :: nat
  sizeof_IndexType :: nat
  NDEBUG :: bool

text \<open>
  Modelled from the spec: \<^verbatim>\<open>StorageType\<close> is declared in Reader.h, which is not part of the
  sources at hand. The spec names the two formats Dense and SparseCSC; any other value of the
  enumeration's underlying type is kept as the integer that \<^verbatim>\<open>(int)type\<close> yields.
\<close>

datatype StorageType = dense | sparse_csc | StorageType_other int

text \<open>
  \<^verbatim>\<open>MBLayout\<close>: the two queries the shim makes, \<^verbatim>\<open>GetNumParallelSequences()\<close> and
  \<^verbatim>\<open>GetNumCols()\<close>.
\<close>

record MBLayout =
  GetNumParallelSequences_layout :: size_t
  GetNumCols :: size_t

text \<open>\<^verbatim>\<open>StreamDescription\<close>; \<open>m_sampleLayout\<close> stands for \<^verbatim>\<open>m_sampleLayout->GetNumElements()\<close>.\<close>

record StreamDescription =
  m_name :: wstring
  m_id :: size_t
  m_storageType :: StorageType
  m_sampleLayout :: size_t

record StreamMinibatch =
  m_data :: "byte list"
  m_layout :: MBLayout

text \<open>
  \<^verbatim>\<open>Minibatch\<close>: its fields \<^verbatim>\<open>m_endOfEpoch\<close> and \<^verbatim>\<open>m_data\<close> carry the prefix \<open>mb_\<close> here,
  the names being taken by the shim and by \<open>StreamMinibatch\<close>.
\<close>

record Minibatch =
  mb_endOfEpoch :: bool
  mb_data :: "StreamMinibatch list"

record EpochConfiguration =
  m_workerRank :: size_t
  m_numberOfWorkers :: size_t
  m_minibatchSizeInSamples :: size_t
  m_totalEpochSizeInSamples :: size_t
  m_epochIndex :: size_t

text \<open>The two configuration keys \<^verbatim>\<open>Init\<close> reads; \<open>None\<close> is a key that is not set.\<close>

record ConfigParameters =
  nbruttsineachrecurrentiter :: "int list option"
  prefetch :: "bool option"

subsection \<open>The destination matrices\<close>

text \<open>
  Modelled from the spec: \<^verbatim>\<open>Matrix<ElemType>\<close> is not part of the sources at hand. The spec's
  destination buffer exposes a device id, a current row count (0 for unset) and operations
  that accept dense backing storage or the sparse CSC components together with the shape.
  A pointer into a stream's buffer is the buffer and a byte offset; the matrix keeps the
  bytes it is handed: \<open>numRows * numCols\<close> elements for \<^verbatim>\<open>SetValue\<close>, and for
  \<^verbatim>\<open>SetMatrixFromCSCFormat\<close> \<open>nz\<close> values, \<open>nz\<close> row indices and \<open>numCols + 1\<close> column offsets.
\<close>

type_synonym pointer = "byte list \<times> nat"

definition region :: "pointer \<Rightarrow> nat \<Rightarrow> byte list" where
  "region p len = take len (drop (snd p) (fst p))"

datatype MatrixStorage =
    Unset
  | DenseStorage "byte list"
  | SparseCSCStorage "byte list" "byte list" "byte list" size_t

record Matrix =
  GetDeviceId :: int
  GetNumRows :: size_t
  GetNumColsM :: size_t
  storage :: MatrixStorage

definition SetValue :: "build \<Rightarrow> Matrix \<Rightarrow> size_t \<Rightarrow> size_t \<Rightarrow> int \<Rightarrow> pointer \<Rightarrow> Matrix" where
  "SetValue B matrix numRows numCols deviceId pArray =
     matrix\<lparr>GetDeviceId := deviceId, GetNumRows := numRows, GetNumColsM := numCols,
            storage := DenseStorage (region pArray (numRows * numCols * sizeof_ElemType B))\<rparr>"

definition SetMatrixFromCSCFormat ::
  "build \<Rightarrow> Matrix \<Rightarrow> pointer \<Rightarrow> pointer \<Rightarrow> pointer \<Rightarrow> size_t \<Rightarrow> size_t \<Rightarrow> size_t \<Rightarrow> Matrix" where
  "SetMatrixFromCSCFormat B matrix h_CSCCol h_Row h_Val nz numRows numCols =
     matrix\<lparr>GetNumRows := numRows, GetNumColsM := numCols,
            storage := SparseCSCStorage
              (region h_CSCCol ((numCols + 1) * sizeof_IndexType B))
              (region h_Row (nz * sizeof_IndexType B))
              (region h_Val (nz * sizeof_ElemType B)) nz\<rparr>"

text \<open>
  \<^verbatim>\<open>StreamMinibatchInputs\<close>: a \<^verbatim>\<open>std::map\<close> from input name to the matrix and layout of that
  input, iterated in key order. It is the list of its entries in iteration order; every
  entry owns its matrix (\<^verbatim>\<open>GetInputMatrix\<close>) and its layout (\<^verbatim>\<open>GetInputLayout\<close>).
\<close>

record Input =
  input_matrix :: Matrix
  input_layout :: MBLayout

type_synonym StreamMinibatchInputs = "(wstring \<times> Input) list"

subsection \<open>The reader behind the shim\<close>

text \<open>
  The reader is an object behind an interface: its private state and the three virtual
  methods the shim calls.
\<close>

record 'r Reader =
  reader_state :: 'r
  GetStreamDescriptions_impl :: "'r \<Rightarrow> StreamDescription list"
  StartEpoch_impl :: "EpochConfiguration \<Rightarrow> 'r \<Rightarrow> 'r"
  ReadMinibatch_impl :: "'r \<Rightarrow> Minibatch \<times> 'r"

definition GetStreamDescriptions :: "'r Reader \<Rightarrow> StreamDescription list" where
  "GetStreamDescriptions r = GetStreamDescriptions_impl r (reader_state r)"

definition StartEpoch :: "'r Reader \<Rightarrow> EpochConfiguration \<Rightarrow> 'r Reader" where
  "StartEpoch r config = r\<lparr>reader_state := StartEpoch_impl r config (reader_state r)\<rparr>"

definition ReadMinibatch :: "'r Reader \<Rightarrow> Minibatch \<times> 'r Reader" where
  "ReadMinibatch r =
     (case ReadMinibatch_impl r (reader_state r) of
        (minibatch, st) \<Rightarrow> (minibatch, r\<lparr>reader_state := st\<rparr>))"

subsection \<open>The shim object\<close>

datatype launch = async | deferred

text \<open>
  \<^verbatim>\<open>std::future<Minibatch>\<close>: without shared state (default constructed, or after
  \<^verbatim>\<open>get()\<close>); a deferred call, which runs inside \<^verbatim>\<open>get()\<close>; a call handed to a thread
  of its own that has not called the reader yet (\<open>async_task\<close>); or the finished call of
  such a thread, with its batch (\<open>ready\<close>). When the thread of an \<open>async_task\<close> calls
  \<^verbatim>\<open>ReadMinibatch\<close> is the scheduler's choice: it is a step of its own (\<open>thread_run\<close>
  below), which may take place at any moment between \<^verbatim>\<open>std::async\<close> and the end of the
  \<^verbatim>\<open>get()\<close> that waits for the thread.
\<close>

datatype future = no_state | deferred_task | async_task | ready Minibatch

datatype error =
    InputCountMismatch size_t size_t
  | CouldNotMapInput string string
  | SampleSizeMismatch int string int
  | StorageTypeNotSupported int
  | AssertionFailed
  | UndefinedBehaviour

text \<open>
  The \<^verbatim>\<open>RuntimeError\<close> messages are kept by their arguments:
  \<open>InputCountMismatch\<close> is "Number of input nodes (%zd) does not match the expected number (%zd).",
  \<open>CouldNotMapInput\<close> is "Could not map input '%ls' to the reader. Reader outputs only [%s].",
  \<open>SampleSizeMismatch\<close> is "Sample size (%d) for input '%ls' does not match the expected size (%d).",
  \<open>StorageTypeNotSupported\<close> is "Storage type %d is not supported.".
\<close>

record 'r ReaderShim =
  m_factory :: "ConfigParameters \<Rightarrow> 'r Reader"
  m_launchType :: launch
  m_numParallelSequences :: size_t
  m_reader :: "'r Reader option"
  m_streams :: "StreamDescription list"
  m_nameToStreamId :: "(wstring \<times> size_t) list"
  m_endOfEpoch :: bool
  m_prefetchTask :: future

text \<open>
  The constructor initialises \<open>m_factory\<close> only. The containers, the reader pointer and the
  future are default constructed; the three scalar members start with whatever the class
  declaration or the memory gives them, which the constructor takes as arguments here.
\<close>

definition ReaderShim_ctor ::
  "(ConfigParameters \<Rightarrow> 'r Reader) \<Rightarrow> launch \<Rightarrow> size_t \<Rightarrow> bool \<Rightarrow> 'r ReaderShim" where
  "ReaderShim_ctor factory launchType0 numParallelSequences0 endOfEpoch0 =
     \<lparr>m_factory = factory, m_launchType = launchType0,
      m_numParallelSequences = numParallelSequences0, m_reader = None, m_streams = [],
      m_nameToStreamId = [], m_endOfEpoch = endOfEpoch0, m_prefetchTask = no_state\<rparr>"

text \<open>
  \<^verbatim>\<open>std::map<wstring, size_t>\<close> as the list of its entries in key order. \<open>map_insert\<close> is
  \<^verbatim>\<open>std::map::insert\<close>: an entry whose key is present already is not inserted.
\<close>

fun map_insert :: "wstring \<times> size_t \<Rightarrow> (wstring \<times> size_t) list \<Rightarrow> (wstring \<times> size_t) list" where
  "map_insert kv [] = [kv]"
| "map_insert kv (e # es) =
     (if fst kv = fst e then e # es
      else if fst kv < fst e then kv # e # es
      else e # map_insert kv es)"

section \<open>ReaderShim.cpp: the functions\<close>

text \<open>
  \<^verbatim>\<open>Init\<close>. The configured array (an \<^verbatim>\<open>intargvector\<close>, declared outside this file) is the
  list of its entries; indexing it at 0 is out of range when it is empty. The factory is
  taken to return a reader.
\<close>

definition Init :: "'r ReaderShim \<Rightarrow> ConfigParameters \<Rightarrow> error + 'r ReaderShim" where
  "Init s config =
     (let numberOfuttsPerMinibatchForAllEpochs =
            (case nbruttsineachrecurrentiter config of None \<Rightarrow> [1] | Some xs \<Rightarrow> xs);
          prefetch = (case prefetch config of None \<Rightarrow> True | Some b \<Rightarrow> b)
      in case numberOfuttsPerMinibatchForAllEpochs of
           [] \<Rightarrow> Inl UndefinedBehaviour
         | x # _ \<Rightarrow>
             let reader = m_factory s config;
                 streams = GetStreamDescriptions reader
             in Inr (s\<lparr>m_launchType := (if prefetch then async else deferred),
                       m_numParallelSequences := size_t_of_int x,
                       m_reader := Some reader,
                       m_streams := streams,
                       m_nameToStreamId :=
                         foldl (\<lambda>m i. map_insert (m_name i, m_id i) m) (m_nameToStreamId s) streams\<rparr>))"

text \<open>
  \<^verbatim>\<open>std::async(m_launchType, [this]() { return m_reader->ReadMinibatch(); })\<close> assigned to
  \<open>m_prefetchTask\<close>: it records a deferred call or hands the call to a new thread, and
  does not call the reader itself. The lambda reads \<open>m_reader\<close> when it runs.
\<close>

definition std_async :: "'r ReaderShim \<Rightarrow> 'r ReaderShim" where
  "std_async s =
     (case m_launchType s of
        deferred \<Rightarrow> s\<lparr>m_prefetchTask := deferred_task\<rparr>
      | async \<Rightarrow> s\<lparr>m_prefetchTask := async_task\<rparr>)"

text \<open>
  The step of the thread that \<^verbatim>\<open>launch::async\<close> started: it calls \<^verbatim>\<open>ReadMinibatch\<close> and
  makes the future ready. Without such a thread nothing happens. (A thread that finds no
  reader dereferences a null pointer; the step leaves the shim, and \<open>future_get\<close> fails.)
\<close>

definition thread_run :: "'r ReaderShim \<Rightarrow> 'r ReaderShim" where
  "thread_run s =
     (case m_prefetchTask s of
        async_task \<Rightarrow>
          (case m_reader s of
             None \<Rightarrow> s
           | Some r \<Rightarrow>
               (case ReadMinibatch r of
                  (minibatch, r') \<Rightarrow> s\<lparr>m_reader := Some r', m_prefetchTask := ready minibatch\<rparr>))
      | _ \<Rightarrow> s)"

definition future_valid :: "future \<Rightarrow> bool" where
  "future_valid f = (f \<noteq> no_state)"

text \<open>
  \<^verbatim>\<open>m_prefetchTask.get()\<close>: a ready future hands out its batch; a deferred call runs
  now; for a thread that has not called the reader yet, \<^verbatim>\<open>get()\<close> waits until it has,
  so the call takes place now.
\<close>

definition future_get :: "'r ReaderShim \<Rightarrow> (Minibatch \<times> 'r ReaderShim) option" where
  "future_get s =
     (case m_prefetchTask s of
        no_state \<Rightarrow> None
      | ready minibatch \<Rightarrow> Some (minibatch, s\<lparr>m_prefetchTask := no_state\<rparr>)
      | deferred_task \<Rightarrow>
          (case m_reader s of
             None \<Rightarrow> None
           | Some r \<Rightarrow>
               (case ReadMinibatch r of
                  (minibatch, r') \<Rightarrow>
                    Some (minibatch, s\<lparr>m_reader := Some r', m_prefetchTask := no_state\<rparr>)))
      | async_task \<Rightarrow>
          (case m_reader s of
             None \<Rightarrow> None
           | Some r \<Rightarrow>
               (case ReadMinibatch r of
                  (minibatch, r') \<Rightarrow>
                    Some (minibatch, s\<lparr>m_reader := Some r', m_prefetchTask := no_state\<rparr>))))"

text \<open>
  \<^verbatim>\<open>StartDistributedMinibatchLoop\<close>. Assigning the new future releases the old one. When
  the old one belongs to a thread that has not called the reader yet, the assignment waits
  for that thread: its call of \<^verbatim>\<open>ReadMinibatch\<close> takes place (here after \<^verbatim>\<open>StartEpoch\<close>)
  and its batch is dropped. A deferred call that was never waited for does not run.
\<close>

definition StartDistributedMinibatchLoop ::
  "'r ReaderShim \<Rightarrow> size_t \<Rightarrow> size_t \<Rightarrow> size_t \<Rightarrow> size_t \<Rightarrow> size_t \<Rightarrow> error + 'r ReaderShim" where
  "StartDistributedMinibatchLoop s requestedMBSize epoch subsetNum numSubsets requestedEpochSamples =
     (let config = \<lparr>m_workerRank = subsetNum, m_numberOfWorkers = numSubsets,
                    m_minibatchSizeInSamples = requestedMBSize,
                    m_totalEpochSizeInSamples = requestedEpochSamples,
                    m_epochIndex = epoch\<rparr>
      in case m_reader s of
           None \<Rightarrow> Inl UndefinedBehaviour
         | Some r \<Rightarrow>
             let started = StartEpoch r config;
                 joined = (if m_prefetchTask s = async_task then snd (ReadMinibatch started)
                           else started)
             in Inr (std_async (s\<lparr>m_reader := Some joined, m_endOfEpoch := False\<rparr>)))"

definition StartMinibatchLoop ::
  "'r ReaderShim \<Rightarrow> size_t \<Rightarrow> size_t \<Rightarrow> size_t \<Rightarrow> error + 'r ReaderShim" where
  "StartMinibatchLoop s mbSize epoch requestedEpochSamples =
     StartDistributedMinibatchLoop s mbSize epoch 0 1 requestedEpochSamples"

text \<open>
  Modelled from the spec: \<^verbatim>\<open>msra::strfun::utf8\<close> (Basics.h) is not part of the sources at
  hand; it converts a wide string to UTF-8. Names are byte strings here, which it leaves as
  they are. \<open>c_str\<close> is the C string a \<^verbatim>\<open>printf\<close> or a stream sees: it ends at the first NUL.
\<close>

definition utf8 :: "wstring \<Rightarrow> string" where
  "utf8 w = w"

definition c_str :: "string \<Rightarrow> string" where
  "c_str s = takeWhile (\<lambda>c. c \<noteq> CHR 0x00) s"

fun EnumerateInputs_loop :: "bool \<Rightarrow> (wstring \<times> size_t) list \<Rightarrow> string" where
  "EnumerateInputs_loop first [] = []"
| "EnumerateInputs_loop first (s # rest) =
     (if first then [] else '', '') @ [CHR 0x22] @ c_str (utf8 (fst s)) @ [CHR 0x22]
       @ EnumerateInputs_loop False rest"

definition EnumerateInputs :: "(wstring \<times> size_t) list \<Rightarrow> string" where
  "EnumerateInputs nameToStreamId = EnumerateInputs_loop True nameToStreamId"

text \<open>
  \<^verbatim>\<open>FillMatrixFromStream\<close>. \<open>read_size_t\<close> is \<^verbatim>\<open>*data\<close> for a \<^verbatim>\<open>size_t* data\<close>: eight bytes,
  least significant first. A buffer shorter than that is read out of bounds.
\<close>

fun le_nat :: "byte list \<Rightarrow> nat" where
  "le_nat [] = 0"
| "le_nat (b # bs) = unat b + 256 * le_nat bs"

definition sizeof_size_t :: nat where
  "sizeof_size_t = 8"

definition read_size_t :: "byte list \<Rightarrow> size_t" where
  "read_size_t buf = le_nat (take sizeof_size_t buf)"

definition FillMatrixFromStream ::
  "build \<Rightarrow> StorageType \<Rightarrow> Matrix \<Rightarrow> size_t \<Rightarrow> StreamMinibatch \<Rightarrow> error + Matrix" where
  "FillMatrixFromStream B type matrix numRows stream =
     (let numCols = GetNumCols (m_layout stream) in
      case type of
        dense \<Rightarrow>
          Inr (SetValue B matrix numRows numCols (GetDeviceId matrix) (m_data stream, 0))
      | sparse_csc \<Rightarrow>
          if length (m_data stream) < sizeof_size_t then Inl UndefinedBehaviour
          else
            let nnzCount = read_size_t (m_data stream);
                values = 1 * sizeof_size_t;
                rows = values + nnzCount * sizeof_ElemType B;
                columns = rows + nnzCount * sizeof_IndexType B
            in Inr (SetMatrixFromCSCFormat B matrix (m_data stream, columns) (m_data stream, rows)
                      (m_data stream, values) nnzCount numRows numCols)
      | StorageType_other n \<Rightarrow> Inl (StorageTypeNotSupported n))"

text \<open>
  The body of the loop over the matrices in \<^verbatim>\<open>GetMinibatch\<close> (lines 140 to 165), for one
  entry \<open>mx\<close>. It returns the error raised, if any, with the shim and the entry as they are
  at that moment: what was written before a \<^verbatim>\<open>RuntimeError\<close> stays written.
  Indexing \<^verbatim>\<open>minibatch.m_data\<close> or \<^verbatim>\<open>m_streams\<close> beyond their size is undefined behaviour.
\<close>

definition GetMinibatch_input ::
  "build \<Rightarrow> 'r ReaderShim \<Rightarrow> Minibatch \<Rightarrow> wstring \<times> Input
     \<Rightarrow> error option \<times> 'r ReaderShim \<times> (wstring \<times> Input)" where
  "GetMinibatch_input B s minibatch mx =
     (case map_of (m_nameToStreamId s) (fst mx) of
        None \<Rightarrow>
          (Some (CouldNotMapInput (c_str (fst mx)) (EnumerateInputs (m_nameToStreamId s))), s, mx)
      | Some streamId \<Rightarrow>
          if length (mb_data minibatch) \<le> streamId then (Some UndefinedBehaviour, s, mx)
          else
            let stream = mb_data minibatch ! streamId;
                s' = s\<lparr>m_numParallelSequences := GetNumParallelSequences_layout (m_layout stream)\<rparr>
            in if length (m_streams s) \<le> streamId then (Some UndefinedBehaviour, s', mx)
               else
                 let rowNumber = m_sampleLayout (m_streams s ! streamId);
                     mx' = (fst mx, (snd mx)\<lparr>input_layout := m_layout stream\<rparr>);
                     expectedRowNumber = GetNumRows (input_matrix (snd mx))
                 in if expectedRowNumber > 0 \<and> expectedRowNumber \<noteq> rowNumber
                    then (Some (SampleSizeMismatch (int_of_size_t rowNumber) (c_str (fst mx))
                                  (int_of_size_t expectedRowNumber)), s', mx')
                    else
                      (case FillMatrixFromStream B (m_storageType (m_streams s ! streamId))
                              (input_matrix (snd mx)) rowNumber stream of
                         Inl e \<Rightarrow> (Some e, s', mx')
                       | Inr filled \<Rightarrow> (None, s', (fst mx, (snd mx')\<lparr>input_matrix := filled\<rparr>))))"

fun GetMinibatch_loop ::
  "build \<Rightarrow> 'r ReaderShim \<Rightarrow> Minibatch \<Rightarrow> StreamMinibatchInputs
     \<Rightarrow> error option \<times> 'r ReaderShim \<times> StreamMinibatchInputs" where
  "GetMinibatch_loop B s minibatch [] = (None, s, [])"
| "GetMinibatch_loop B s minibatch (mx # rest) =
     (case GetMinibatch_input B s minibatch mx of
        (Some e, s', mx') \<Rightarrow> (Some e, s', mx' # rest)
      | (None, s', mx') \<Rightarrow>
          (case GetMinibatch_loop B s' minibatch rest of
             (r, s'', rest') \<Rightarrow> (r, s'', mx' # rest')))"

text \<open>
  \<^verbatim>\<open>GetMinibatch\<close>. The result is what the call returns or raises, the shim after the call
  and the caller's matrices after the call. \<^verbatim>\<open>matrices.begin()->second\<close> on an empty map
  and \<^verbatim>\<open>get()\<close> on a future without shared state are undefined behaviour.
\<close>

definition GetMinibatch ::
  "build \<Rightarrow> 'r ReaderShim \<Rightarrow> StreamMinibatchInputs
     \<Rightarrow> (error + bool) \<times> 'r ReaderShim \<times> StreamMinibatchInputs" where
  "GetMinibatch B s matrices =
     (let size = length matrices in
      if size \<noteq> length (m_nameToStreamId s)
      then (Inl (InputCountMismatch size (length (m_nameToStreamId s))), s, matrices)
      else if m_endOfEpoch s then (Inr False, s, matrices)
      else
        (case matrices of
           [] \<Rightarrow> (Inl UndefinedBehaviour, s, matrices)
         | mx0 # _ \<Rightarrow>
            (let deviceId = GetDeviceId (input_matrix (snd mx0)) in
             if \<not> NDEBUG B \<and> list_ex (\<lambda>mx. GetDeviceId (input_matrix (snd mx)) \<noteq> deviceId) matrices
             then (Inl AssertionFailed, s, matrices)
             else if \<not> NDEBUG B \<and> \<not> future_valid (m_prefetchTask s)
             then (Inl AssertionFailed, s, matrices)
             else
               (case future_get s of
                  None \<Rightarrow> (Inl UndefinedBehaviour, s, matrices)
                | Some (minibatch, s1) \<Rightarrow>
                   (let s2 = (if mb_endOfEpoch minibatch then s1\<lparr>m_endOfEpoch := True\<rparr> else s1) in
                    if mb_endOfEpoch minibatch \<and> mb_data minibatch = []
                    then (Inr False, s2, matrices)
                    else
                      (case (if mb_data minibatch \<noteq> []
                             then GetMinibatch_loop B s2 minibatch matrices
                             else (None, s2, matrices)) of
                         (Some e, s3, matrices') \<Rightarrow> (Inl e, s3, matrices')
                       | (None, s3, matrices') \<Rightarrow>
                          (Inr (mb_data minibatch \<noteq> []),
                           (if \<not> m_endOfEpoch s3 then std_async s3 else s3),
                           matrices')))))))"

definition DataEnd :: "'r ReaderShim \<Rightarrow> bool" where
  "DataEnd s = False"

text \<open>\<^verbatim>\<open>CopyMBLayoutTo\<close> does nothing: the layout it is given stays as it is.\<close>

definition CopyMBLayoutTo :: "'r ReaderShim \<Rightarrow> MBLayout \<Rightarrow> MBLayout" where
  "CopyMBLayoutTo s layout = layout"

definition GetNumParallelSequences :: "'r ReaderShim \<Rightarrow> size_t" where
  "GetNumParallelSequences s = m_numParallelSequences s"

text \<open>
  The predicate the device loop of \<open>GetMinibatch\<close> asserts (lines 115 to 122): no matrix
  reports a device other than the first one's. And a sequence of \<open>GetMinibatch\<close> calls on
  one shim, each with its own matrices.
\<close>

definition same_device :: "StreamMinibatchInputs \<Rightarrow> bool" where
  "same_device matrices =
     (\<not> list_ex (\<lambda>mx. GetDeviceId (input_matrix (snd mx))
                      \<noteq> GetDeviceId (input_matrix (snd (hd matrices)))) matrices)"

fun GetMinibatch_calls ::
  "build \<Rightarrow> 'r ReaderShim \<Rightarrow> StreamMinibatchInputs list
     \<Rightarrow> ((error + bool) \<times> StreamMinibatchInputs) list \<times> 'r ReaderShim" where
  "GetMinibatch_calls B s [] = ([], s)"
| "GetMinibatch_calls B s (matrices # rest) =
     (case GetMinibatch B s matrices of
        (r, s', matrices') \<Rightarrow>
          (case GetMinibatch_calls B s' rest of
             (rs, s'') \<Rightarrow> ((r, matrices') # rs, s'')))"

text \<open>
  The spec's words for the list of names in the unknown-input error: every name in double
  quotes, the names separated by a comma and a blank.
\<close>

definition quoted :: "wstring \<Rightarrow> string" where
  "quoted name = [CHR 0x22] @ c_str (utf8 name) @ [CHR 0x22]"

fun comma_separated :: "string list \<Rightarrow> string" where
  "comma_separated [] = []"
| "comma_separated [x] = x"
| "comma_separated (x # y # zs) = x @ '', '' @ comma_separated (y # zs)"

section \<open>A scripted reader and the inputs of the examples\<close>

text \<open>
  A reader for the examples: it declares the given streams, hands out the batches of a
  script one by one (an empty end-of-epoch batch once the script is used up) and counts the
  calls of \<open>ReadMinibatch\<close> it has received.
\<close>

definition scripted_reader ::
  "StreamDescription list \<Rightarrow> Minibatch list \<Rightarrow> (Minibatch list \<times> nat) Reader" where
  "scripted_reader descriptions script =
     \<lparr>reader_state = (script, 0),
      GetStreamDescriptions_impl = (\<lambda>_. descriptions),
      StartEpoch_impl = (\<lambda>_ st. st),
      ReadMinibatch_impl = (\<lambda>st.
        case fst st of
          [] \<Rightarrow> (\<lparr>mb_endOfEpoch = True, mb_data = []\<rparr>, ([], Suc (snd st)))
        | b # bs \<Rightarrow> (b, (bs, Suc (snd st))))\<rparr>"

definition B_debug :: build where
  "B_debug = \<lparr>sizeof_ElemType = 4, sizeof_IndexType = 4, NDEBUG = False\<rparr>"

definition B_release :: build where
  "B_release = \<lparr>sizeof_ElemType = 4, sizeof_IndexType = 4, NDEBUG = True\<rparr>"

definition features_desc :: StreamDescription where
  "features_desc = \<lparr>m_name = ''features'', m_id = 0, m_storageType = dense, m_sampleLayout = 2\<rparr>"

definition labels_desc :: StreamDescription where
  "labels_desc = \<lparr>m_name = ''labels'', m_id = 1, m_storageType = sparse_csc, m_sampleLayout = 4\<rparr>"

definition weights_desc :: StreamDescription where
  "weights_desc = \<lparr>m_name = ''weights'', m_id = 2, m_storageType = dense, m_sampleLayout = 2\<rparr>"

text \<open>
  A dense stream of two rows and one column (the floats 1.0 and 2.0), and the sparse stream
  of the spec's example: a 4 by 3 matrix with the two entries 5.0 at (1,0) and 9.0 at (3,1).
\<close>

definition dense_bytes :: "byte list" where
  "dense_bytes = [0, 0, 0x80, 0x3F, 0, 0, 0, 0x40]"

definition csc_count :: "byte list" where
  "csc_count = [2, 0, 0, 0, 0, 0, 0, 0]"

definition csc_values :: "byte list" where
  "csc_values = [0, 0, 0xA0, 0x40, 0, 0, 0x10, 0x41]"

definition csc_rows :: "byte list" where
  "csc_rows = [1, 0, 0, 0, 3, 0, 0, 0]"

definition csc_columns :: "byte list" where
  "csc_columns = [0, 0, 0, 0, 1, 0, 0, 0, 2, 0, 0, 0, 2, 0, 0, 0]"

definition features_stream :: StreamMinibatch where
  "features_stream =
     \<lparr>m_data = dense_bytes,
      m_layout = \<lparr>GetNumParallelSequences_layout = 1, GetNumCols = 1\<rparr>\<rparr>"

definition labels_stream :: StreamMinibatch where
  "labels_stream =
     \<lparr>m_data = csc_count @ csc_values @ csc_rows @ csc_columns,
      m_layout = \<lparr>GetNumParallelSequences_layout = 2, GetNumCols = 3\<rparr>\<rparr>"

definition batch_data :: Minibatch where
  "batch_data = \<lparr>mb_endOfEpoch = False, mb_data = [features_stream, labels_stream]\<rparr>"

definition batch_last :: Minibatch where
  "batch_last = \<lparr>mb_endOfEpoch = True, mb_data = [features_stream, labels_stream]\<rparr>"

definition batch_end :: Minibatch where
  "batch_end = \<lparr>mb_endOfEpoch = True, mb_data = []\<rparr>"

definition empty_input :: "int \<Rightarrow> size_t \<Rightarrow> Input" where
  "empty_input device numRows =
     \<lparr>input_matrix = \<lparr>GetDeviceId = device, GetNumRows = numRows, GetNumColsM = 0, storage = Unset\<rparr>,
      input_layout = \<lparr>GetNumParallelSequences_layout = 0, GetNumCols = 0\<rparr>\<rparr>"

definition two_inputs :: StreamMinibatchInputs where
  "two_inputs = [(''features'', empty_input 0 0), (''labels'', empty_input 0 0)]"

definition test_factory :: "ConfigParameters \<Rightarrow> (Minibatch list \<times> nat) Reader" where
  "test_factory config = scripted_reader [features_desc, labels_desc] [batch_data, batch_last]"

definition three_factory :: "ConfigParameters \<Rightarrow> (Minibatch list \<times> nat) Reader" where
  "three_factory config =
     scripted_reader [features_desc, labels_desc, weights_desc] [batch_data, batch_last]"

text \<open>A shim with a given catalogue, reader, launch type, flag and future.\<close>

definition shim_with ::
  "StreamDescription list \<Rightarrow> (Minibatch list \<times> nat) Reader \<Rightarrow> launch \<Rightarrow> bool \<Rightarrow> future
     \<Rightarrow> (Minibatch list \<times> nat) ReaderShim" where
  "shim_with streams reader launchType endOfEpoch task =
     \<lparr>m_factory = test_factory, m_launchType = launchType, m_numParallelSequences = 1,
      m_reader = Some reader, m_streams = streams,
      m_nameToStreamId = map (\<lambda>i. (m_name i, m_id i)) streams,
      m_endOfEpoch = endOfEpoch, m_prefetchTask = task\<rparr>"

definition cat2 :: "StreamDescription list" where
  "cat2 = [features_desc, labels_desc]"

definition one_input :: StreamMinibatchInputs where
  "one_input = [(''features'', empty_input 0 0)]"

text \<open>
  A shim without prefetch whose reader is about to deliver the empty batch that ends the
  epoch, and the same shim after the call that fetched that batch.
\<close>

definition shim_lazy_last :: "(Minibatch list \<times> nat) ReaderShim" where
  "shim_lazy_last = shim_with cat2 (scripted_reader cat2 [batch_end]) deferred False deferred_task"

definition shim_lazy_ended :: "(Minibatch list \<times> nat) ReaderShim" where
  "shim_lazy_ended =
     shim_with cat2 ((scripted_reader cat2 [batch_end])\<lparr>reader_state := ([], 1)\<rparr>)
       deferred True no_state"

text \<open>
  The two inputs after a batch with data has been copied into them, the scripted reader
  after \<open>n\<close> calls of \<open>ReadMinibatch\<close>, and two shims at the start of an epoch: one without
  prefetch, one with prefetch whose first batch has been produced already.
\<close>

definition features_filled :: Input where
  "features_filled =
     \<lparr>input_matrix = \<lparr>GetDeviceId = 0, GetNumRows = 2, GetNumColsM = 1,
                       storage = DenseStorage dense_bytes\<rparr>,
      input_layout = \<lparr>GetNumParallelSequences_layout = 1, GetNumCols = 1\<rparr>\<rparr>"

definition labels_filled :: Input where
  "labels_filled =
     \<lparr>input_matrix = \<lparr>GetDeviceId = 0, GetNumRows = 4, GetNumColsM = 3,
                       storage = SparseCSCStorage csc_columns csc_rows csc_values 2\<rparr>,
      input_layout = \<lparr>GetNumParallelSequences_layout = 2, GetNumCols = 3\<rparr>\<rparr>"

definition two_inputs_filled :: StreamMinibatchInputs where
  "two_inputs_filled = [(''features'', features_filled), (''labels'', labels_filled)]"

definition reader_after :: "nat \<Rightarrow> Minibatch list \<Rightarrow> (Minibatch list \<times> nat) Reader" where
  "reader_after n script =
     (scripted_reader cat2 [batch_data, batch_last])\<lparr>reader_state := (script, n)\<rparr>"

definition shim_lazy_started :: "(Minibatch list \<times> nat) ReaderShim" where
  "shim_lazy_started =
     shim_with cat2 (reader_after 0 [batch_data, batch_last]) deferred False deferred_task"

definition shim_eager_started :: "(Minibatch list \<times> nat) ReaderShim" where
  "shim_eager_started =
     shim_with cat2 (reader_after 1 [batch_last]) async False (ready batch_data)"

definition wrong_inputs :: StreamMinibatchInputs where
  "wrong_inputs = [(''features'', empty_input 0 0), (''wrong'', empty_input 0 0)]"

text \<open>A reader that declares two streams of the same name.\<close>

definition twin_factory :: "ConfigParameters \<Rightarrow> (Minibatch list \<times> nat) Reader" where
  "twin_factory config =
     scripted_reader [features_desc, labels_desc\<lparr>m_name := ''features''\<rparr>] [batch_data]"

text \<open>A shim whose first stream declares samples of eight elements.\<close>

definition shim_sample8 :: "(Minibatch list \<times> nat) ReaderShim" where
  "shim_sample8 =
     shim_with [features_desc\<lparr>m_sampleLayout := 8\<rparr>, labels_desc] (reader_after 1 [batch_last])
       async False (ready batch_data)"

text \<open>Two inputs on different devices.\<close>

definition mixed_inputs :: StreamMinibatchInputs where
  "mixed_inputs = [(''features'', empty_input 0 0), (''labels'', empty_input 1 0)]"


section \<open>Properties\<close>

subsection \<open>What a call leaves alone\<close>

lemmas example_defs =
  shim_with_def scripted_reader_def cat2_def features_desc_def labels_desc_def
  two_inputs_def empty_input_def batch_data_def batch_last_def batch_end_def
  features_stream_def labels_stream_def B_debug_def test_factory_def

lemmas shim_defs =
  GetMinibatch_def future_get_def future_valid_def std_async_def ReadMinibatch_def
  StartEpoch_def GetStreamDescriptions_def

lemma GetMinibatch_input_shim:
  "GetMinibatch_input B s mb mx = (r, s', mx') \<Longrightarrow>
     s' = s\<lparr>m_numParallelSequences := m_numParallelSequences s'\<rparr>"
  by (auto simp: GetMinibatch_input_def Let_def split: option.splits if_splits sum.splits)

lemma GetMinibatch_loop_shim:
  "GetMinibatch_loop B s mb ms = (r, s', ms') \<Longrightarrow>
     s' = s\<lparr>m_numParallelSequences := m_numParallelSequences s'\<rparr>"
proof (induction ms arbitrary: s r s' ms')
  case Nil
  then show ?case by simp
next
  case (Cons mx rest)
  obtain r1 s1 mx1 where b: "GetMinibatch_input B s mb mx = (r1, s1, mx1)"
    by (cases "GetMinibatch_input B s mb mx") auto
  note h1 = GetMinibatch_input_shim [OF b]
  show ?case
  proof (cases r1)
    case None
    obtain r2 s2 rest2 where l: "GetMinibatch_loop B s1 mb rest = (r2, s2, rest2)"
      by (cases "GetMinibatch_loop B s1 mb rest") auto
    from Cons.prems b None l have "s' = s2" by simp
    moreover note Cons.IH [OF l]
    ultimately show ?thesis using h1
      by (metis ReaderShim.surjective ReaderShim.update_convs(3))
  next
    case (Some e)
    with Cons.prems b have "s' = s1" by simp
    then show ?thesis using h1 by simp
  qed
qed

lemma future_get_shim:
  "future_get s = Some (mb, s1) \<Longrightarrow>
     m_prefetchTask s1 = no_state \<and> m_endOfEpoch s1 = m_endOfEpoch s \<and>
     m_nameToStreamId s1 = m_nameToStreamId s \<and> m_streams s1 = m_streams s \<and>
     m_launchType s1 = m_launchType s \<and>
     m_numParallelSequences s1 = m_numParallelSequences s \<and>
     m_prefetchTask s \<noteq> no_state"
  by (auto simp: future_get_def split: future.splits option.splits prod.splits)

lemma GetMinibatch_fetch:
  assumes "length matrices = length (m_nameToStreamId s)" and "\<not> m_endOfEpoch s"
    and "matrices \<noteq> []" and "NDEBUG B \<or> same_device matrices"
    and "future_get s = Some (minibatch, s1)"
  shows "GetMinibatch B s matrices =
     (let s2 = (if mb_endOfEpoch minibatch then s1\<lparr>m_endOfEpoch := True\<rparr> else s1) in
      if mb_endOfEpoch minibatch \<and> mb_data minibatch = []
      then (Inr False, s2, matrices)
      else
        (case (if mb_data minibatch \<noteq> []
               then GetMinibatch_loop B s2 minibatch matrices
               else (None, s2, matrices)) of
           (Some e, s3, matrices') \<Rightarrow> (Inl e, s3, matrices')
         | (None, s3, matrices') \<Rightarrow>
            (Inr (mb_data minibatch \<noteq> []),
             (if \<not> m_endOfEpoch s3 then std_async s3 else s3), matrices')))"
proof -
  obtain mx0 rest where m: "matrices = mx0 # rest"
    using assms(3) by (cases matrices) auto
  have v: "future_valid (m_prefetchTask s)"
    using future_get_shim [OF assms(5)] by (simp add: future_valid_def)
  show ?thesis
    unfolding GetMinibatch_def
    using assms(1,2,4,5) v unfolding m same_device_def
    by (auto simp del: GetMinibatch_loop.simps simp add: Let_def)
qed

lemma GetMinibatch_ended:
  assumes "m_endOfEpoch s"
  shows "GetMinibatch B s matrices =
     ((if length matrices = length (m_nameToStreamId s) then Inr False
       else Inl (InputCountMismatch (length matrices) (length (m_nameToStreamId s)))),
      s, matrices)"
  using assms by (simp add: GetMinibatch_def)

lemma GetMinibatch_calls_ended:
  assumes "m_endOfEpoch s"
  shows "GetMinibatch_calls B s calls =
     (map (\<lambda>matrices.
        ((if length matrices = length (m_nameToStreamId s) then Inr False
          else Inl (InputCountMismatch (length matrices) (length (m_nameToStreamId s)))),
         matrices)) calls, s)"
  by (induction calls) (simp_all add: GetMinibatch_ended [OF assms])

lemma GetMinibatch_fetch_end:
  assumes "length matrices = length (m_nameToStreamId s)" and "\<not> m_endOfEpoch s"
    and "matrices \<noteq> []" and "NDEBUG B \<or> same_device matrices"
    and "future_get s = Some (minibatch, s1)" and "mb_endOfEpoch minibatch"
    and "GetMinibatch B s matrices = (r, s', matrices')"
  shows "s' = s1\<lparr>m_endOfEpoch := True, m_numParallelSequences := m_numParallelSequences s'\<rparr>"
proof -
  let ?s2 = "s1\<lparr>m_endOfEpoch := True\<rparr>"
  obtain rl sl ml where l: "GetMinibatch_loop B ?s2 minibatch matrices = (rl, sl, ml)"
    by (cases "GetMinibatch_loop B ?s2 minibatch matrices") auto
  have sl: "sl = ?s2\<lparr>m_numParallelSequences := m_numParallelSequences sl\<rparr>"
    by (rule GetMinibatch_loop_shim [OF l])
  then have e: "m_endOfEpoch sl" by (metis ReaderShim.select_convs(7) ReaderShim.surjective ReaderShim.update_convs(3) ReaderShim.update_convs(7))
  show ?thesis
  proof (cases "mb_data minibatch = []")
    case True
    then show ?thesis
      using assms(6,7) unfolding GetMinibatch_fetch [OF assms(1-5)] by auto
  next
    case False
    then have "s' = sl"
      using assms(6,7) l e unfolding GetMinibatch_fetch [OF assms(1-5)]
      by (cases rl) (auto simp del: GetMinibatch_loop.simps)
    then show ?thesis using sl by simp
  qed
qed

subsection \<open>The number of inputs\<close>

text \<open>
  C4. When the number of matrices the caller passes differs from the number of entries of
  \<open>m_nameToStreamId\<close>, \<open>GetMinibatch\<close> raises the count mismatch with both numbers, whatever
  the rest of the shim's state is (also after the end of the epoch), and neither the shim
  nor any matrix is touched.
\<close>

theorem GetMinibatch_count_mismatch:
  assumes "length matrices \<noteq> length (m_nameToStreamId s)"
  shows "GetMinibatch B s matrices =
           (Inl (InputCountMismatch (length matrices) (length (m_nameToStreamId s))), s, matrices)"
  using assms by (simp add: GetMinibatch_def)

theorem GetMinibatch_count_mismatch_witness:
  "length two_inputs \<noteq>
     length (m_nameToStreamId (shim_with [features_desc, labels_desc, weights_desc]
        (three_factory \<lparr>nbruttsineachrecurrentiter = None, prefetch = None\<rparr>) async True no_state))
   \<and> GetMinibatch B_debug
        (shim_with [features_desc, labels_desc, weights_desc]
           (three_factory \<lparr>nbruttsineachrecurrentiter = None, prefetch = None\<rparr>) async True no_state)
        two_inputs =
       (Inl (InputCountMismatch 2 3),
        shim_with [features_desc, labels_desc, weights_desc]
           (three_factory \<lparr>nbruttsineachrecurrentiter = None, prefetch = None\<rparr>) async True no_state,
        two_inputs)"
  using GetMinibatch_count_mismatch [of two_inputs
      "shim_with [features_desc, labels_desc, weights_desc]
         (three_factory \<lparr>nbruttsineachrecurrentiter = None, prefetch = None\<rparr>) async True no_state"
      B_debug]
  by (simp add: shim_with_def two_inputs_def)

subsection \<open>The end of an epoch\<close>

text \<open>
  C1, as the code has it. (1) A call that fetches a batch signalling the end of the epoch
  leaves the flag set, the future without shared state and the reader as the fetch left
  it: nothing is launched. (2) From then on every call leaves the shim and the matrices
  untouched; it returns false when the number of matrices equals the size of the catalogue
  and raises the count mismatch otherwise. (3) \<open>StartDistributedMinibatchLoop\<close>, when it
  returns, has reset the flag and left a launched task in the future, and
  \<open>StartMinibatchLoop\<close> is that function for worker 0 of 1.
\<close>

theorem end_of_epoch_no_production:
  "(length matrices = length (m_nameToStreamId s) \<and> \<not> m_endOfEpoch s \<and> matrices \<noteq> [] \<and>
    (NDEBUG B \<or> same_device matrices) \<and> future_get s = Some (minibatch, s1) \<and>
    mb_endOfEpoch minibatch \<longrightarrow>
      m_endOfEpoch (fst (snd (GetMinibatch B s matrices))) \<and>
      m_prefetchTask (fst (snd (GetMinibatch B s matrices))) = no_state \<and>
      m_reader (fst (snd (GetMinibatch B s matrices))) = m_reader s1)
   \<and> (m_endOfEpoch t \<longrightarrow>
        GetMinibatch_calls B t calls =
          (map (\<lambda>matrices.
             ((if length matrices = length (m_nameToStreamId t) then Inr False
               else Inl (InputCountMismatch (length matrices) (length (m_nameToStreamId t)))),
              matrices)) calls, t))
   \<and> (StartDistributedMinibatchLoop t mbSize epoch subsetNum numSubsets samples = Inr t' \<longrightarrow>
        \<not> m_endOfEpoch t' \<and> m_prefetchTask t' \<noteq> no_state)
   \<and> StartMinibatchLoop t mbSize epoch samples =
        StartDistributedMinibatchLoop t mbSize epoch 0 1 samples"
proof -
  have a: "m_endOfEpoch (fst (snd (GetMinibatch B s matrices))) \<and>
      m_prefetchTask (fst (snd (GetMinibatch B s matrices))) = no_state \<and>
      m_reader (fst (snd (GetMinibatch B s matrices))) = m_reader s1"
    if h: "length matrices = length (m_nameToStreamId s)" "\<not> m_endOfEpoch s" "matrices \<noteq> []"
      "NDEBUG B \<or> same_device matrices" "future_get s = Some (minibatch, s1)"
      "mb_endOfEpoch minibatch"
  proof -
    obtain r s' ms' where g: "GetMinibatch B s matrices = (r, s', ms')"
      by (cases "GetMinibatch B s matrices") auto
    have "s' = s1\<lparr>m_endOfEpoch := True, m_numParallelSequences := m_numParallelSequences s'\<rparr>"
      by (rule GetMinibatch_fetch_end [OF h g])
    then have "m_endOfEpoch s' \<and> m_prefetchTask s' = m_prefetchTask s1 \<and> m_reader s' = m_reader s1"
      by (metis ReaderShim.select_convs(4,7,8) ReaderShim.surjective ReaderShim.update_convs(3,7))
    then show ?thesis using g future_get_shim [OF h(5)] by simp
  qed
  have c: "\<not> m_endOfEpoch t' \<and> m_prefetchTask t' \<noteq> no_state"
    if "StartDistributedMinibatchLoop t mbSize epoch subsetNum numSubsets samples = Inr t'"
    using that
    by (auto simp: StartDistributedMinibatchLoop_def std_async_def Let_def
             split: option.splits launch.splits prod.splits)
  show ?thesis
    using a c GetMinibatch_calls_ended [of t B calls]
    by (simp add: StartMinibatchLoop_def)
qed

theorem end_of_epoch_no_production_witness:
  "length two_inputs = length (m_nameToStreamId shim_lazy_last) \<and>
   \<not> m_endOfEpoch shim_lazy_last \<and> two_inputs \<noteq> [] \<and> same_device two_inputs \<and>
   future_get shim_lazy_last = Some (batch_end, shim_lazy_ended\<lparr>m_endOfEpoch := False\<rparr>) \<and>
   mb_endOfEpoch batch_end \<and>
   GetMinibatch B_debug shim_lazy_last two_inputs = (Inr False, shim_lazy_ended, two_inputs) \<and>
   m_endOfEpoch shim_lazy_ended \<and> m_prefetchTask shim_lazy_ended = no_state \<and>
   GetMinibatch_calls B_debug shim_lazy_ended [two_inputs, one_input] =
     ([(Inr False, two_inputs), (Inl (InputCountMismatch 1 2), one_input)], shim_lazy_ended) \<and>
   StartDistributedMinibatchLoop shim_lazy_ended 1 0 0 1 10 =
     Inr (shim_lazy_ended\<lparr>m_endOfEpoch := False, m_prefetchTask := deferred_task\<rparr>) \<and>
   \<not> m_endOfEpoch (shim_lazy_ended\<lparr>m_endOfEpoch := False, m_prefetchTask := deferred_task\<rparr>)"
  using end_of_epoch_no_production [of two_inputs shim_lazy_last B_debug batch_end
      "shim_lazy_ended\<lparr>m_endOfEpoch := False\<rparr>" shim_lazy_ended "[two_inputs, one_input]"
      1 0 0 1 10 "shim_lazy_ended\<lparr>m_endOfEpoch := False, m_prefetchTask := deferred_task\<rparr>"]
  by (simp add: shim_lazy_last_def shim_lazy_ended_def one_input_def same_device_def
        StartDistributedMinibatchLoop_def example_defs shim_defs)

text \<open>
  C1 as stated says that every later call returns false. After the epoch has ended, a
  call with one matrix for a catalogue of two streams raises the count mismatch instead.
\<close>

theorem end_of_epoch_count_mismatch_counterexample:
  "fst (GetMinibatch B_debug shim_lazy_last two_inputs) = Inr False \<and>
   m_endOfEpoch (fst (snd (GetMinibatch B_debug shim_lazy_last two_inputs))) \<and>
   fst (GetMinibatch B_debug (fst (snd (GetMinibatch B_debug shim_lazy_last two_inputs)))
          [(''features'', empty_input 0 0)]) = Inl (InputCountMismatch 1 2)"
  by (simp add: shim_lazy_last_def example_defs shim_defs)

subsection \<open>Launching the next batch\<close>

lemmas decode_defs =
  GetMinibatch_input_def FillMatrixFromStream_def SetValue_def SetMatrixFromCSCFormat_def
  region_def read_size_t_def sizeof_size_t_def dense_bytes_def csc_count_def csc_values_def
  csc_rows_def csc_columns_def features_filled_def labels_filled_def two_inputs_filled_def

lemma GetMinibatch_returns:
  assumes "GetMinibatch B s matrices = (Inr b, s', matrices')" and "\<not> m_endOfEpoch s"
  shows "length matrices = length (m_nameToStreamId s) \<and> matrices \<noteq> [] \<and>
         (NDEBUG B \<or> same_device matrices) \<and> (\<exists>mb s1. future_get s = Some (mb, s1))"
proof -
  have 1: "length matrices = length (m_nameToStreamId s)"
    using assms by (auto simp: GetMinibatch_def Let_def split: if_splits)
  have 2: "matrices \<noteq> []"
    using assms 1 by (auto simp: GetMinibatch_def Let_def split: if_splits)
  then obtain mx0 rest where m: "matrices = mx0 # rest" by (cases matrices) auto
  have 3: "NDEBUG B \<or> same_device matrices"
    using assms 1 unfolding m same_device_def GetMinibatch_def
    by (auto simp: Let_def split: if_splits)
  have 4: "\<exists>mb s1. future_get s = Some (mb, s1)"
    using assms 1 unfolding m GetMinibatch_def
    by (cases "future_get s") (auto simp: Let_def split: if_splits)
  show ?thesis using 1 2 3 4 by simp
qed

lemma GetMinibatch_relaunch:
  assumes "GetMinibatch B s matrices = (Inr b, s', matrices')" and "\<not> m_endOfEpoch s"
    and "future_get s = Some (minibatch, s1)" and "\<not> mb_endOfEpoch minibatch"
  shows "\<exists>n. s' = std_async (s1\<lparr>m_numParallelSequences := n\<rparr>)"
proof -
  note g = GetMinibatch_returns [OF assms(1,2)]
  have f: "GetMinibatch B s matrices =
     (case (if mb_data minibatch \<noteq> []
               then GetMinibatch_loop B s1 minibatch matrices
               else (None, s1, matrices)) of
           (Some e, s3, matrices') \<Rightarrow> (Inl e, s3, matrices')
         | (None, s3, matrices') \<Rightarrow>
            (Inr (mb_data minibatch \<noteq> []),
             (if \<not> m_endOfEpoch s3 then std_async s3 else s3), matrices'))"
    using GetMinibatch_fetch [of matrices s B minibatch s1] g assms(2,3,4)
    by (simp add: Let_def)
  have e1: "\<not> m_endOfEpoch s1" using future_get_shim [OF assms(3)] assms(2) by simp
  show ?thesis
  proof (cases "mb_data minibatch = []")
    case True
    then have "s' = std_async s1"
      using f assms(1) e1 by auto
    then have "s' = std_async (s1\<lparr>m_numParallelSequences := m_numParallelSequences s1\<rparr>)"
      by simp
    then show ?thesis by blast
  next
    case False
    obtain rl sl ml where l: "GetMinibatch_loop B s1 minibatch matrices = (rl, sl, ml)"
      by (cases "GetMinibatch_loop B s1 minibatch matrices") auto
    have sl: "sl = s1\<lparr>m_numParallelSequences := m_numParallelSequences sl\<rparr>"
      by (rule GetMinibatch_loop_shim [OF l])
    then have e: "\<not> m_endOfEpoch sl" using e1
      by (metis ReaderShim.select_convs(7) ReaderShim.surjective ReaderShim.update_convs(3))
    have "s' = std_async sl"
      using f assms(1) False l e
      by (cases rl) (auto simp del: GetMinibatch_loop.simps)
    then show ?thesis using sl by metis
  qed
qed

text \<open>
  C2, as the code has it. A call that starts before the end of the epoch, fetches a batch
  that does not signal the end of the epoch and returns has, before it returns, put a new
  task for \<open>ReadMinibatch\<close> into the future: a thread of its own with \<open>launch::async\<close>, a
  recorded call with \<open>launch::deferred\<close>. The next fetch obtains the batch of exactly that
  call of \<open>ReadMinibatch\<close>, made on the reader as this fetch left it, whether or not the
  thread has run in between. With \<open>launch::deferred\<close> there is no thread: the reader is
  as the fetch left it when the call returns and is asked for the next batch only inside
  the \<open>get()\<close> of the next call. With \<open>launch::async\<close> nothing is said about the moment
  at which the thread calls the reader.
\<close>

theorem next_batch_launched_before_return:
  assumes "GetMinibatch B s matrices = (Inr b, s', matrices')" and "\<not> m_endOfEpoch s"
    and "future_get s = Some (minibatch, s1)" and "\<not> mb_endOfEpoch minibatch"
    and "m_reader s1 = Some r"
  shows "future_valid (m_prefetchTask s') \<and>
         (m_launchType s = async \<longrightarrow> m_prefetchTask s' = async_task) \<and>
         (m_launchType s = deferred \<longrightarrow>
            m_prefetchTask s' = deferred_task \<and> m_reader s' = Some r \<and> thread_run s' = s') \<and>
         map_option fst (future_get s') = Some (fst (ReadMinibatch r)) \<and>
         map_option (\<lambda>x. m_reader (snd x)) (future_get s') = Some (Some (snd (ReadMinibatch r))) \<and>
         map_option fst (future_get (thread_run s')) = Some (fst (ReadMinibatch r)) \<and>
         map_option (\<lambda>x. m_reader (snd x)) (future_get (thread_run s')) =
           Some (Some (snd (ReadMinibatch r)))"
proof -
  obtain n where a: "s' = std_async (s1\<lparr>m_numParallelSequences := n\<rparr>)"
    using GetMinibatch_relaunch [OF assms(1-4)] by blast
  have l: "m_launchType s1 = m_launchType s"
    using future_get_shim [OF assms(3)] by simp
  show ?thesis
  proof (cases "m_launchType s")
    case async
    then show ?thesis
      using a l assms(5)
      by (auto simp: std_async_def future_get_def future_valid_def thread_run_def
               split: prod.splits)
  next
    case deferred
    then show ?thesis
      using a l assms(5)
      by (auto simp: std_async_def future_get_def future_valid_def thread_run_def
               split: prod.splits)
  qed
qed

theorem next_batch_launched_before_return_witness:
  "GetMinibatch B_debug shim_eager_started two_inputs =
     (Inr True,
      (shim_with cat2 (reader_after 1 [batch_last]) async False async_task)
         \<lparr>m_numParallelSequences := 2\<rparr>,
      two_inputs_filled) \<and>
   \<not> m_endOfEpoch shim_eager_started \<and>
   future_get shim_eager_started =
     Some (batch_data, shim_with cat2 (reader_after 1 [batch_last]) async False no_state) \<and>
   \<not> mb_endOfEpoch batch_data \<and>
   m_reader (shim_with cat2 (reader_after 1 [batch_last]) async False no_state) =
     Some (reader_after 1 [batch_last]) \<and>
   ReadMinibatch (reader_after 1 [batch_last]) = (batch_last, reader_after 2 []) \<and>
   m_launchType shim_eager_started = async \<and>
   future_valid async_task \<and>
   thread_run ((shim_with cat2 (reader_after 1 [batch_last]) async False async_task)
                 \<lparr>m_numParallelSequences := 2\<rparr>) =
     (shim_with cat2 (reader_after 2 []) async False (ready batch_last))
        \<lparr>m_numParallelSequences := 2\<rparr> \<and>
   map_option fst
     (future_get ((shim_with cat2 (reader_after 1 [batch_last]) async False async_task)
                    \<lparr>m_numParallelSequences := 2\<rparr>)) = Some batch_last \<and>
   map_option fst
     (future_get ((shim_with cat2 (reader_after 2 []) async False (ready batch_last))
                    \<lparr>m_numParallelSequences := 2\<rparr>)) = Some batch_last"
  using next_batch_launched_before_return [of B_debug shim_eager_started two_inputs True
      "(shim_with cat2 (reader_after 1 [batch_last]) async False async_task)
         \<lparr>m_numParallelSequences := 2\<rparr>"
      two_inputs_filled batch_data
      "shim_with cat2 (reader_after 1 [batch_last]) async False no_state"
      "reader_after 1 [batch_last]"]
  by (simp add: shim_eager_started_def reader_after_def thread_run_def
        example_defs shim_defs decode_defs)

text \<open>
  C2 as stated fails without prefetch. After \<open>Init\<close> with \<open>prefetch = false\<close> and
  \<open>StartMinibatchLoop\<close>, the first \<open>GetMinibatch\<close> fetches a batch that does not end the
  epoch and returns true; at that moment the reader has received one call of
  \<open>ReadMinibatch\<close>, the one for the batch just returned, and still holds the second batch.
  The second batch is requested by the \<open>get()\<close> of the second fetch.
\<close>

theorem next_batch_deferred_counterexample:
  "Init (ReaderShim_ctor test_factory async 0 True)
     \<lparr>nbruttsineachrecurrentiter = None, prefetch = Some False\<rparr> =
     Inr (shim_with cat2 (reader_after 0 [batch_data, batch_last]) deferred True no_state) \<and>
   StartMinibatchLoop
     (shim_with cat2 (reader_after 0 [batch_data, batch_last]) deferred True no_state) 2 0 10 =
     Inr shim_lazy_started \<and>
   GetMinibatch B_debug shim_lazy_started two_inputs =
     (Inr True,
      (shim_with cat2 (reader_after 1 [batch_last]) deferred False deferred_task)
         \<lparr>m_numParallelSequences := 2\<rparr>,
      two_inputs_filled) \<and>
   map_option fst (future_get shim_lazy_started) = Some batch_data \<and>
   \<not> mb_endOfEpoch batch_data \<and>
   snd (reader_state (reader_after 1 [batch_last])) = 1 \<and>
   future_get ((shim_with cat2 (reader_after 1 [batch_last]) deferred False deferred_task)
                 \<lparr>m_numParallelSequences := 2\<rparr>) =
     Some (batch_last,
           (shim_with cat2 (reader_after 2 []) deferred False no_state)
              \<lparr>m_numParallelSequences := 2\<rparr>)"
  by (simp add: Init_def Let_def ReaderShim_ctor_def size_t_of_int_def StartMinibatchLoop_def
        StartDistributedMinibatchLoop_def shim_lazy_started_def reader_after_def
        example_defs shim_defs decode_defs)

subsection \<open>Decoding a stream\<close>

lemma read_size_t_prefix:
  "length count = sizeof_size_t \<Longrightarrow> read_size_t (count @ rest) = le_nat count"
  by (simp add: read_size_t_def)

text \<open>
  C3. For a stream of storage type \<open>sparse_csc\<close> whose buffer holds at least the count,
  \<open>FillMatrixFromStream\<close> reads the count \<open>nnz\<close> at offset 0 and hands the matrix, with
  the shape \<open>numRows\<close> by the layout's number of columns, the values found right after the
  count, the row indices found right after the \<open>nnz\<close> values, and the column offsets found
  right after the \<open>nnz\<close> row indices. So a buffer that is the count, \<open>nnz\<close> values, \<open>nnz\<close>
  row indices and \<open>numCols + 1\<close> column offsets, in this order, is installed as exactly these
  arrays. A storage type that is neither \<open>dense\<close> nor \<open>sparse_csc\<close> raises the error that
  carries the type's integer value. The copy loop calls the function with the number of
  elements of the stream's sample layout as \<open>numRows\<close>.
\<close>

theorem FillMatrixFromStream_sparse_csc:
  "(sizeof_size_t \<le> length (m_data stream) \<longrightarrow>
      FillMatrixFromStream B sparse_csc matrix numRows stream =
        (let nnz = read_size_t (m_data stream);
             values = sizeof_size_t;
             rows = values + nnz * sizeof_ElemType B;
             columns = rows + nnz * sizeof_IndexType B
         in Inr (matrix\<lparr>GetNumRows := numRows, GetNumColsM := GetNumCols (m_layout stream),
              storage := SparseCSCStorage
                (region (m_data stream, columns)
                   ((GetNumCols (m_layout stream) + 1) * sizeof_IndexType B))
                (region (m_data stream, rows) (nnz * sizeof_IndexType B))
                (region (m_data stream, values) (nnz * sizeof_ElemType B)) nnz\<rparr>)))
   \<and> (m_data stream = count @ vals @ rws @ cols @ rest \<and>
       length count = sizeof_size_t \<and>
       length vals = le_nat count * sizeof_ElemType B \<and>
       length rws = le_nat count * sizeof_IndexType B \<and>
       length cols = (GetNumCols (m_layout stream) + 1) * sizeof_IndexType B \<longrightarrow>
      FillMatrixFromStream B sparse_csc matrix numRows stream =
        Inr (matrix\<lparr>GetNumRows := numRows, GetNumColsM := GetNumCols (m_layout stream),
                    storage := SparseCSCStorage cols rws vals (le_nat count)\<rparr>))
   \<and> (type \<noteq> dense \<and> type \<noteq> sparse_csc \<longrightarrow>
       (\<exists>n. type = StorageType_other n \<and>
            FillMatrixFromStream B type matrix numRows stream = Inl (StorageTypeNotSupported n)))
   \<and> (map_of (m_nameToStreamId s) (fst mx) = Some streamId \<and>
       streamId < length (mb_data minibatch) \<and> streamId < length (m_streams s) \<and>
       m_storageType (m_streams s ! streamId) = sparse_csc \<and>
       GetNumRows (input_matrix (snd mx)) = 0 \<and>
       sizeof_size_t \<le> length (m_data (mb_data minibatch ! streamId)) \<longrightarrow>
         fst (GetMinibatch_input B s minibatch mx) = None \<and>
         FillMatrixFromStream B sparse_csc (input_matrix (snd mx))
             (m_sampleLayout (m_streams s ! streamId)) (mb_data minibatch ! streamId) =
           Inr (input_matrix (snd (snd (snd (GetMinibatch_input B s minibatch mx))))))"
proof -
  have a: "FillMatrixFromStream B sparse_csc matrix numRows stream =
        (let nnz = read_size_t (m_data stream);
             values = sizeof_size_t;
             rows = values + nnz * sizeof_ElemType B;
             columns = rows + nnz * sizeof_IndexType B
         in Inr (matrix\<lparr>GetNumRows := numRows, GetNumColsM := GetNumCols (m_layout stream),
              storage := SparseCSCStorage
                (region (m_data stream, columns)
                   ((GetNumCols (m_layout stream) + 1) * sizeof_IndexType B))
                (region (m_data stream, rows) (nnz * sizeof_IndexType B))
                (region (m_data stream, values) (nnz * sizeof_ElemType B)) nnz\<rparr>))"
    if "sizeof_size_t \<le> length (m_data stream)"
    using that by (simp add: FillMatrixFromStream_def SetMatrixFromCSCFormat_def Let_def)
  have b: "FillMatrixFromStream B sparse_csc matrix numRows stream =
        Inr (matrix\<lparr>GetNumRows := numRows, GetNumColsM := GetNumCols (m_layout stream),
                    storage := SparseCSCStorage cols rws vals (le_nat count)\<rparr>)"
    if h: "m_data stream = count @ vals @ rws @ cols @ rest"
      "length count = sizeof_size_t"
      "length vals = le_nat count * sizeof_ElemType B"
      "length rws = le_nat count * sizeof_IndexType B"
      "length cols = (GetNumCols (m_layout stream) + 1) * sizeof_IndexType B"
  proof -
    have n: "read_size_t (m_data stream) = le_nat count"
      using h(1,2) by (simp add: read_size_t_prefix)
    have len: "sizeof_size_t \<le> length (m_data stream)"
      using h(1,2) by simp
    have v: "region (m_data stream, sizeof_size_t) (le_nat count * sizeof_ElemType B) = vals"
      using h(1,2,3) by (simp add: region_def)
    have r: "region (m_data stream, sizeof_size_t + le_nat count * sizeof_ElemType B)
               (le_nat count * sizeof_IndexType B) = rws"
      using h(1,2,3,4) by (simp add: region_def)
    have c: "region (m_data stream, sizeof_size_t + le_nat count * sizeof_ElemType B
                      + le_nat count * sizeof_IndexType B)
               ((GetNumCols (m_layout stream) + 1) * sizeof_IndexType B) = cols"
      using h by (simp add: region_def)
    show ?thesis
      unfolding a [OF len] Let_def n v r c by simp
  qed
  have c: "\<exists>n. type = StorageType_other n \<and>
            FillMatrixFromStream B type matrix numRows stream = Inl (StorageTypeNotSupported n)"
    if "type \<noteq> dense" "type \<noteq> sparse_csc"
    using that by (cases type) (simp_all add: FillMatrixFromStream_def)
  have d: "fst (GetMinibatch_input B s minibatch mx) = None \<and>
         FillMatrixFromStream B sparse_csc (input_matrix (snd mx))
             (m_sampleLayout (m_streams s ! streamId)) (mb_data minibatch ! streamId) =
           Inr (input_matrix (snd (snd (snd (GetMinibatch_input B s minibatch mx)))))"
    if h: "map_of (m_nameToStreamId s) (fst mx) = Some streamId"
      "streamId < length (mb_data minibatch)" "streamId < length (m_streams s)"
      "m_storageType (m_streams s ! streamId) = sparse_csc"
      "GetNumRows (input_matrix (snd mx)) = 0"
      "sizeof_size_t \<le> length (m_data (mb_data minibatch ! streamId))"
    using h
    by (simp add: GetMinibatch_input_def FillMatrixFromStream_def Let_def)
  show ?thesis
    apply (intro conjI impI; (elim conjE)?)
        apply (rule a; assumption)
       apply (rule b; assumption)
      apply (rule c; assumption)
     apply (rule d [THEN conjunct1]; assumption)
    apply (rule d [THEN conjunct2]; assumption)
    done
qed

theorem FillMatrixFromStream_sparse_csc_witness:
  "sizeof_size_t \<le> length (m_data labels_stream) \<and>
   m_data labels_stream = csc_count @ csc_values @ csc_rows @ csc_columns @ [] \<and>
   length csc_count = sizeof_size_t \<and> le_nat csc_count = 2 \<and>
   length csc_values = le_nat csc_count * sizeof_ElemType B_debug \<and>
   length csc_rows = le_nat csc_count * sizeof_IndexType B_debug \<and>
   length csc_columns = (GetNumCols (m_layout labels_stream) + 1) * sizeof_IndexType B_debug \<and>
   FillMatrixFromStream B_debug sparse_csc (input_matrix (empty_input 0 0)) 4 labels_stream =
     Inr (input_matrix labels_filled) \<and>
   StorageType_other 7 \<noteq> dense \<and> StorageType_other 7 \<noteq> sparse_csc \<and>
   FillMatrixFromStream B_debug (StorageType_other 7) (input_matrix (empty_input 0 0)) 4
     labels_stream = Inl (StorageTypeNotSupported 7) \<and>
   map_of (m_nameToStreamId shim_eager_started) (fst (''labels'', empty_input 0 0)) = Some 1 \<and>
   1 < length (mb_data batch_data) \<and> 1 < length (m_streams shim_eager_started) \<and>
   m_storageType (m_streams shim_eager_started ! 1) = sparse_csc \<and>
   m_sampleLayout (m_streams shim_eager_started ! 1) = 4 \<and>
   GetNumRows (input_matrix (snd (''labels'', empty_input 0 0))) = 0 \<and>
   mb_data batch_data ! 1 = labels_stream \<and>
   snd (snd (GetMinibatch_input B_debug shim_eager_started batch_data
               (''labels'', empty_input 0 0))) = (''labels'', labels_filled)"
  using FillMatrixFromStream_sparse_csc [where stream = labels_stream and B = B_debug
      and matrix = "input_matrix (empty_input 0 0)" and numRows = 4
      and count = csc_count and vals = csc_values and rws = csc_rows and cols = csc_columns
      and rest = "[]" and type = "StorageType_other 7" and s = shim_eager_started
      and mx = "(''labels'', empty_input 0 0)" and streamId = 1 and minibatch = batch_data]
  by (simp add: shim_eager_started_def reader_after_def Let_def example_defs decode_defs)

subsection \<open>Names that the reader does not know\<close>

lemma EnumerateInputs_loop_False:
  "EnumerateInputs_loop False m = concat (map (\<lambda>e. '', '' @ quoted (fst e)) m)"
  by (induction m) (simp_all add: quoted_def)

lemma comma_separated_Cons:
  "comma_separated (x # xs) = x @ concat (map (\<lambda>y. '', '' @ y) xs)"
  by (induction xs arbitrary: x) simp_all

lemma EnumerateInputs_eq:
  "EnumerateInputs m = comma_separated (map (\<lambda>e. quoted (fst e)) m)"
proof (cases m)
  case Nil
  then show ?thesis by (simp add: EnumerateInputs_def)
next
  case (Cons e es)
  have "EnumerateInputs m = quoted (fst e) @ EnumerateInputs_loop False es"
    by (simp add: Cons EnumerateInputs_def quoted_def)
  then show ?thesis
    by (simp add: Cons EnumerateInputs_loop_False comma_separated_Cons comp_def
          del: comma_separated.simps)
qed

lemma GetMinibatch_loop_append:
  "GetMinibatch_loop B s mb (before @ rest) =
     (case GetMinibatch_loop B s mb before of
        (Some e, s', before') \<Rightarrow> (Some e, s', before' @ rest)
      | (None, s', before') \<Rightarrow>
          (case GetMinibatch_loop B s' mb rest of
             (r, s'', rest') \<Rightarrow> (r, s'', before' @ rest')))"
proof (induction before arbitrary: s)
  case Nil
  then show ?case by (simp split: prod.splits)
next
  case (Cons mx before)
  show ?case
    by (simp add: Cons.IH split: prod.splits option.splits)
qed

lemma GetMinibatch_loop_catalog:
  assumes "GetMinibatch_loop B s mb ms = (r, s', ms')"
  shows "m_nameToStreamId s' = m_nameToStreamId s"
  using GetMinibatch_loop_shim [OF assms]
  by (metis ReaderShim.select_convs(6) ReaderShim.surjective ReaderShim.update_convs(3))

text \<open>
  C5, as the code has it. The name of an input is looked up inside the loop that copies the
  batch, right before that input is copied, and only when a batch with data has been
  fetched. When the inputs before \<open>name\<close> (in the order of iteration) have been copied
  without error and \<open>name\<close> is not in the catalogue, the call raises the unknown-input error
  with the catalogue's names, each in double quotes, separated by comma and blank, in the
  order of the catalogue; the inputs before \<open>name\<close> stay as the copy left them, \<open>name\<close> and
  the inputs after it are untouched. After the end of the epoch the call returns false
  whatever the names are, and a fetched batch without data leaves all inputs untouched
  and raises no error about names.
\<close>

theorem unknown_input_raised_in_loop:
  "(length matrices = length (m_nameToStreamId s) \<and> \<not> m_endOfEpoch s \<and>
    (NDEBUG B \<or> same_device matrices) \<and> future_get s = Some (minibatch, s1) \<and>
    mb_data minibatch \<noteq> [] \<and> matrices = before @ (name, input) # rest \<and>
    GetMinibatch_loop B (if mb_endOfEpoch minibatch then s1\<lparr>m_endOfEpoch := True\<rparr> else s1)
       minibatch before = (None, s3, before') \<and>
    map_of (m_nameToStreamId s) name = None \<longrightarrow>
      GetMinibatch B s matrices =
        (Inl (CouldNotMapInput (c_str name)
                (comma_separated (map (\<lambda>e. quoted (fst e)) (m_nameToStreamId s)))),
         s3, before' @ (name, input) # rest))
   \<and> (length matrices = length (m_nameToStreamId s) \<and> m_endOfEpoch s \<longrightarrow>
        GetMinibatch B s matrices = (Inr False, s, matrices))
   \<and> (length matrices = length (m_nameToStreamId s) \<and> \<not> m_endOfEpoch s \<and> matrices \<noteq> [] \<and>
       (NDEBUG B \<or> same_device matrices) \<and> future_get s = Some (minibatch, s1) \<and>
       mb_data minibatch = [] \<longrightarrow>
        (fst (GetMinibatch B s matrices) = Inr False \<or>
         fst (GetMinibatch B s matrices) = Inl UndefinedBehaviour) \<and>
        snd (snd (GetMinibatch B s matrices)) = matrices)"
proof -
  let ?s2 = "if mb_endOfEpoch minibatch then s1\<lparr>m_endOfEpoch := True\<rparr> else s1"
  have a: "GetMinibatch B s matrices =
        (Inl (CouldNotMapInput (c_str name)
                (comma_separated (map (\<lambda>e. quoted (fst e)) (m_nameToStreamId s)))),
         s3, before' @ (name, input) # rest)"
    if h: "length matrices = length (m_nameToStreamId s)" "\<not> m_endOfEpoch s"
      "NDEBUG B \<or> same_device matrices" "future_get s = Some (minibatch, s1)"
      "mb_data minibatch \<noteq> []" "matrices = before @ (name, input) # rest"
      "GetMinibatch_loop B ?s2 minibatch before = (None, s3, before')"
      "map_of (m_nameToStreamId s) name = None"
  proof -
    have ne: "matrices \<noteq> []" using h(6) by simp
    have "m_nameToStreamId ?s2 = m_nameToStreamId s"
      using future_get_shim [OF h(4)] by simp
    then have cat: "m_nameToStreamId s3 = m_nameToStreamId s"
      using GetMinibatch_loop_catalog [OF h(7)] by simp
    have i: "GetMinibatch_input B s3 minibatch (name, input) =
       (Some (CouldNotMapInput (c_str name) (EnumerateInputs (m_nameToStreamId s))), s3,
        (name, input))"
      using h(8) cat by (simp add: GetMinibatch_input_def)
    have l: "GetMinibatch_loop B ?s2 minibatch matrices =
       (Some (CouldNotMapInput (c_str name) (EnumerateInputs (m_nameToStreamId s))), s3,
        before' @ (name, input) # rest)"
      unfolding h(6) GetMinibatch_loop_append h(7) by (simp add: i)
    show ?thesis
      unfolding GetMinibatch_fetch [OF h(1,2) ne h(3,4)] Let_def
      using h(5) l by (simp add: EnumerateInputs_eq del: GetMinibatch_loop.simps)
  qed
  have b: "GetMinibatch B s matrices = (Inr False, s, matrices)"
    if "length matrices = length (m_nameToStreamId s)" "m_endOfEpoch s"
    using that by (simp add: GetMinibatch_ended)
  have c: "(fst (GetMinibatch B s matrices) = Inr False \<or>
         fst (GetMinibatch B s matrices) = Inl UndefinedBehaviour) \<and>
        snd (snd (GetMinibatch B s matrices)) = matrices"
    if h: "length matrices = length (m_nameToStreamId s)" "\<not> m_endOfEpoch s" "matrices \<noteq> []"
      "NDEBUG B \<or> same_device matrices" "future_get s = Some (minibatch, s1)"
      "mb_data minibatch = []"
    unfolding GetMinibatch_fetch [OF h(1-5)] Let_def
    using h(6) by (auto split: option.splits)
  show ?thesis
    apply (intro conjI impI; elim conjE)
       apply (rule a; assumption)
      apply (rule b; assumption)
     apply (rule c [THEN conjunct1]; assumption)
    apply (rule c [THEN conjunct2]; assumption)
    done
qed

theorem unknown_input_raised_in_loop_witness:
  "length wrong_inputs = length (m_nameToStreamId shim_eager_started) \<and>
   \<not> m_endOfEpoch shim_eager_started \<and> same_device wrong_inputs \<and>
   future_get shim_eager_started =
     Some (batch_data, shim_with cat2 (reader_after 1 [batch_last]) async False no_state) \<and>
   mb_data batch_data \<noteq> [] \<and>
   wrong_inputs = [(''features'', empty_input 0 0)] @ (''wrong'', empty_input 0 0) # [] \<and>
   GetMinibatch_loop B_debug (shim_with cat2 (reader_after 1 [batch_last]) async False no_state)
      batch_data [(''features'', empty_input 0 0)] =
     (None, shim_with cat2 (reader_after 1 [batch_last]) async False no_state,
      [(''features'', features_filled)]) \<and>
   map_of (m_nameToStreamId shim_eager_started) ''wrong'' = None \<and>
   GetMinibatch B_debug shim_eager_started wrong_inputs =
     (Inl (CouldNotMapInput ''wrong''
        ([CHR 0x22] @ ''features'' @ [CHR 0x22] @ '', '' @ [CHR 0x22] @ ''labels'' @ [CHR 0x22])),
      shim_with cat2 (reader_after 1 [batch_last]) async False no_state,
      [(''features'', features_filled), (''wrong'', empty_input 0 0)]) \<and>
   length wrong_inputs = length (m_nameToStreamId shim_lazy_ended) \<and>
   m_endOfEpoch shim_lazy_ended \<and>
   GetMinibatch B_debug shim_lazy_ended wrong_inputs = (Inr False, shim_lazy_ended, wrong_inputs) \<and>
   length wrong_inputs = length (m_nameToStreamId shim_lazy_last) \<and>
   \<not> m_endOfEpoch shim_lazy_last \<and> wrong_inputs \<noteq> [] \<and>
   future_get shim_lazy_last = Some (batch_end, shim_lazy_ended\<lparr>m_endOfEpoch := False\<rparr>) \<and>
   mb_data batch_end = [] \<and>
   fst (GetMinibatch B_debug shim_lazy_last wrong_inputs) = Inr False \<and>
   snd (snd (GetMinibatch B_debug shim_lazy_last wrong_inputs)) = wrong_inputs"
  using unknown_input_raised_in_loop [of wrong_inputs shim_eager_started B_debug batch_data
      "shim_with cat2 (reader_after 1 [batch_last]) async False no_state"
      "[(''features'', empty_input 0 0)]" "''wrong''" "empty_input 0 0" "[]"
      "shim_with cat2 (reader_after 1 [batch_last]) async False no_state"
      "[(''features'', features_filled)]"]
    unknown_input_raised_in_loop [of wrong_inputs shim_lazy_ended B_debug]
    unknown_input_raised_in_loop [of wrong_inputs shim_lazy_last B_debug batch_end
      "shim_lazy_ended\<lparr>m_endOfEpoch := False\<rparr>"]
  by (simp add: shim_eager_started_def shim_lazy_ended_def shim_lazy_last_def wrong_inputs_def
        same_device_def
        quoted_def utf8_def c_str_def reader_after_def example_defs shim_defs decode_defs)

text \<open>
  C5 as stated fails on the spec's own example: the catalogue has "features" and "labels",
  the caller passes "features" and "wrong". The error is raised with both catalogue names,
  but the matrix of "features" has been filled before. And after the end of the epoch the
  same inputs raise no error at all.
\<close>

theorem unknown_input_after_write_counterexample:
  "map_of (m_nameToStreamId shim_eager_started) ''wrong'' = None \<and>
   fst (GetMinibatch B_debug shim_eager_started wrong_inputs) =
     Inl (CouldNotMapInput ''wrong''
        ([CHR 0x22] @ ''features'' @ [CHR 0x22] @ '', '' @ [CHR 0x22] @ ''labels'' @ [CHR 0x22])) \<and>
   snd (snd (GetMinibatch B_debug shim_eager_started wrong_inputs)) =
     [(''features'', features_filled), (''wrong'', empty_input 0 0)] \<and>
   storage (input_matrix features_filled) = DenseStorage dense_bytes \<and>
   storage (input_matrix (empty_input 0 0)) = Unset \<and>
   map_of (m_nameToStreamId shim_lazy_ended) ''wrong'' = None \<and>
   fst (GetMinibatch B_debug shim_lazy_ended wrong_inputs) = Inr False"
  by (simp add: shim_eager_started_def shim_lazy_ended_def wrong_inputs_def
        utf8_def c_str_def EnumerateInputs_def reader_after_def example_defs shim_defs decode_defs)

subsection \<open>The catalogue that Init builds\<close>

lemma map_insert_keys:
  "fst ` set (map_insert kv m) = insert (fst kv) (fst ` set m)"
  by (induction m) auto

lemma map_insert_sorted:
  "sorted_wrt (<) (map fst m) \<Longrightarrow> sorted_wrt (<) (map fst (map_insert kv m))"
proof (induction m)
  case Nil
  then show ?case by simp
next
  case (Cons e m)
  have "\<forall>k \<in> fst ` set (map_insert kv m). fst e < k" if "fst e < fst kv"
    using Cons.prems that by (auto simp: map_insert_keys)
  then show ?case using Cons by auto
qed

lemma map_of_map_insert:
  "sorted_wrt (<) (map fst m) \<Longrightarrow> map_of (map_insert kv m) = map_of (m @ [kv])"
proof (induction m)
  case Nil
  then show ?case by simp
next
  case (Cons e m)
  show ?case
  proof (cases "fst kv = fst e")
    case True
    then show ?thesis by (cases e) (auto simp: fun_eq_iff map_add_def split: option.splits)
  next
    case False
    show ?thesis
    proof (cases "fst kv < fst e")
      case True
      then have "fst kv \<notin> fst ` set (e # m)"
        using Cons.prems by auto
      then have "map_of (e # m) (fst kv) = None"
        by (simp add: map_of_eq_None_iff)
      then show ?thesis using True False
        by (cases e; cases kv) (auto simp: fun_eq_iff map_add_def split: option.splits)
    next
      case ge: False
      then show ?thesis using False Cons by (cases e) (auto simp: fun_eq_iff)
    qed
  qed
qed

lemma foldl_map_insert:
  "sorted_wrt (<) (map fst m) \<Longrightarrow>
     sorted_wrt (<) (map fst (foldl (\<lambda>m i. map_insert (f i) m) m xs)) \<and>
     map_of (foldl (\<lambda>m i. map_insert (f i) m) m xs) = map_of (m @ map f xs)"
proof (induction xs arbitrary: m)
  case Nil
  then show ?case by simp
next
  case (Cons x xs)
  note s = map_insert_sorted [OF Cons.prems, of "f x"]
  have "map_of (map_insert (f x) m @ map f xs) = map_of (m @ map f (x # xs))"
    using map_of_map_insert [OF Cons.prems, of "f x"] by simp
  then show ?case using Cons.IH [OF s] by simp
qed

lemma sorted_keys_length:
  assumes "sorted_wrt (<) (map fst (m :: (wstring \<times> size_t) list))"
  shows "length m = card (dom (map_of m))"
proof -
  have "distinct (map fst m)"
    using assms by (simp add: strict_sorted_iff)
  then have "card (set (map fst m)) = length (map fst m)"
    by (rule distinct_card)
  then show ?thesis by (simp add: dom_map_of_conv_image_fst)
qed

text \<open>
  C6, as the code has it. \<open>Init\<close> on a newly constructed shim does not look for
  duplicate names: in this model it fails only when the configured array
  \<open>nbruttsineachrecurrentiter\<close> is empty. Its catalogue has strictly increasing, hence
  unique, keys, and maps a name to the id of the first declared stream of that name (as
  \<open>map_of\<close> on the declared list does). When the declared names are pairwise distinct, the
  catalogue has one entry for each stream and maps each stream's name to that stream's id.
\<close>

theorem Init_catalog:
  "(Init (ReaderShim_ctor factory launchType0 n0 e0) config = Inr s' \<longrightarrow>
      m_streams s' = GetStreamDescriptions (factory config) \<and>
      sorted_wrt (<) (map fst (m_nameToStreamId s')) \<and>
      map_of (m_nameToStreamId s') = map_of (map (\<lambda>i. (m_name i, m_id i)) (m_streams s')) \<and>
      (distinct (map m_name (m_streams s')) \<longrightarrow>
         length (m_nameToStreamId s') = length (m_streams s') \<and>
         (\<forall>i \<in> set (m_streams s'). map_of (m_nameToStreamId s') (m_name i) = Some (m_id i))))
   \<and> ((\<exists>e. Init (ReaderShim_ctor factory launchType0 n0 e0) config = Inl e)
        = (nbruttsineachrecurrentiter config = Some []))"
proof -
  let ?s0 = "ReaderShim_ctor factory launchType0 n0 e0"
  let ?f = "\<lambda>i. (m_name i, m_id i)"
  have a: "m_streams s' = GetStreamDescriptions (factory config) \<and>
      sorted_wrt (<) (map fst (m_nameToStreamId s')) \<and>
      map_of (m_nameToStreamId s') = map_of (map ?f (m_streams s')) \<and>
      (distinct (map m_name (m_streams s')) \<longrightarrow>
         length (m_nameToStreamId s') = length (m_streams s') \<and>
         (\<forall>i \<in> set (m_streams s'). map_of (m_nameToStreamId s') (m_name i) = Some (m_id i)))"
    if h: "Init ?s0 config = Inr s'"
  proof -
    let ?streams = "GetStreamDescriptions (factory config)"
    have st: "m_streams s' = ?streams"
      using h by (auto simp: Init_def ReaderShim_ctor_def Let_def split: list.splits)
    have cat: "m_nameToStreamId s' = foldl (\<lambda>m i. map_insert (?f i) m) [] ?streams"
      using h by (auto simp: Init_def ReaderShim_ctor_def Let_def split: list.splits)
    have f: "sorted_wrt (<) (map fst (m_nameToStreamId s')) \<and>
             map_of (m_nameToStreamId s') = map_of (map ?f ?streams)"
      unfolding cat using foldl_map_insert [of "[]" ?f ?streams] by simp
    have d: "length (m_nameToStreamId s') = length ?streams \<and>
             (\<forall>i \<in> set ?streams. map_of (m_nameToStreamId s') (m_name i) = Some (m_id i))"
      if dist: "distinct (map m_name ?streams)"
    proof -
      have dm: "distinct (map fst (map ?f ?streams))"
        using dist by (simp add: comp_def)
      have "dom (map_of (m_nameToStreamId s')) = set (map m_name ?streams)"
        using f by (simp add: dom_map_of_conv_image_fst image_image)
      then have "length (m_nameToStreamId s') = card (set (map m_name ?streams))"
        using sorted_keys_length f by metis
      then have len: "length (m_nameToStreamId s') = length ?streams"
        using distinct_card [OF dist] by simp
      have "map_of (map ?f ?streams) (m_name i) = Some (m_id i)" if "i \<in> set ?streams" for i
        using that dm by (intro map_of_is_SomeI) auto
      then show ?thesis using len f by simp
    qed
    show ?thesis using st f d by simp
  qed
  have b: "(\<exists>e. Init ?s0 config = Inl e) = (nbruttsineachrecurrentiter config = Some [])"
    by (auto simp: Init_def Let_def split: option.splits list.splits)
  show ?thesis using a b by blast
qed

theorem Init_catalog_witness:
  "Init (ReaderShim_ctor test_factory deferred 0 True)
      \<lparr>nbruttsineachrecurrentiter = None, prefetch = None\<rparr> =
     Inr (shim_with cat2 (reader_after 0 [batch_data, batch_last]) async True no_state) \<and>
   m_nameToStreamId (shim_with cat2 (reader_after 0 [batch_data, batch_last]) async True no_state)
     = [(''features'', 0), (''labels'', 1)] \<and>
   distinct (map m_name cat2) \<and>
   map_of [(''features'', 0), (''labels'', 1)] (m_name labels_desc) = Some (m_id labels_desc) \<and>
   (\<exists>e. Init (ReaderShim_ctor test_factory deferred 0 True)
           \<lparr>nbruttsineachrecurrentiter = Some [], prefetch = None\<rparr> = Inl e)"
  using Init_catalog [of test_factory deferred 0 True
      "\<lparr>nbruttsineachrecurrentiter = None, prefetch = None\<rparr>"
      "shim_with cat2 (reader_after 0 [batch_data, batch_last]) async True no_state"]
    Init_catalog [of test_factory deferred 0 True
      "\<lparr>nbruttsineachrecurrentiter = Some [], prefetch = None\<rparr>"]
  by (simp add: Init_def Let_def ReaderShim_ctor_def size_t_of_int_def reader_after_def
        example_defs shim_defs)

text \<open>
  C6 as stated fails: for a reader that declares the name "features" twice, with the ids
  0 and 1, \<open>Init\<close> succeeds. The catalogue has the single entry of "features" with id 0, so
  the second stream's name does not map to the second stream's id.
\<close>

theorem Init_duplicate_name_counterexample:
  "map m_name (GetStreamDescriptions (twin_factory \<lparr>nbruttsineachrecurrentiter = None, prefetch = None\<rparr>))
     = [''features'', ''features''] \<and>
   map m_id (GetStreamDescriptions (twin_factory \<lparr>nbruttsineachrecurrentiter = None, prefetch = None\<rparr>))
     = [0, 1] \<and>
   Init (ReaderShim_ctor twin_factory deferred 0 True)
      \<lparr>nbruttsineachrecurrentiter = None, prefetch = None\<rparr> =
     Inr \<lparr>m_factory = twin_factory, m_launchType = async, m_numParallelSequences = 1,
          m_reader = Some (twin_factory \<lparr>nbruttsineachrecurrentiter = None, prefetch = None\<rparr>),
          m_streams = [features_desc, labels_desc\<lparr>m_name := ''features''\<rparr>],
          m_nameToStreamId = [(''features'', 0)],
          m_endOfEpoch = True, m_prefetchTask = no_state\<rparr>"
  by (simp add: Init_def Let_def ReaderShim_ctor_def size_t_of_int_def twin_factory_def
        example_defs shim_defs)

subsection \<open>The sample size of an input\<close>

lemma FillMatrixFromStream_error:
  "FillMatrixFromStream B type matrix numRows stream = Inl e \<Longrightarrow>
     e = UndefinedBehaviour \<or> (\<exists>n. e = StorageTypeNotSupported n)"
  by (auto simp: FillMatrixFromStream_def Let_def split: StorageType.splits if_splits)

lemma int_of_size_t_small: "n < 2 ^ 31 \<Longrightarrow> int_of_size_t n = int n"
  by (simp add: int_of_size_t_def)

text \<open>
  C7. Take an input that the copy loop processes up to the size check: its name is in the
  catalogue, and the stream id is within the batch and within the list of streams. The
  loop body raises the sample-size mismatch if and only if the matrix's row count is not
  zero and differs from the number of elements of the stream's sample layout; the error
  then carries both numbers (after the cast to \<open>int\<close>, which changes nothing below
  \<open>2 ^ 31\<close>). A matrix with zero rows therefore accepts every sample size.
\<close>

theorem sample_size_mismatch_iff:
  assumes "map_of (m_nameToStreamId s) (fst mx) = Some streamId"
    and "streamId < length (mb_data minibatch)"
    and "streamId < length (m_streams s)"
  shows "((\<exists>a n b. fst (GetMinibatch_input B s minibatch mx) = Some (SampleSizeMismatch a n b))
            = (GetNumRows (input_matrix (snd mx)) \<noteq> 0 \<and>
               GetNumRows (input_matrix (snd mx)) \<noteq> m_sampleLayout (m_streams s ! streamId)))
         \<and> (GetNumRows (input_matrix (snd mx)) \<noteq> 0 \<and>
             GetNumRows (input_matrix (snd mx)) \<noteq> m_sampleLayout (m_streams s ! streamId) \<longrightarrow>
               fst (GetMinibatch_input B s minibatch mx) =
                 Some (SampleSizeMismatch (int_of_size_t (m_sampleLayout (m_streams s ! streamId)))
                         (c_str (fst mx))
                         (int_of_size_t (GetNumRows (input_matrix (snd mx))))))
         \<and> (m_sampleLayout (m_streams s ! streamId) < 2 ^ 31 \<and>
             GetNumRows (input_matrix (snd mx)) < 2 ^ 31 \<longrightarrow>
               int_of_size_t (m_sampleLayout (m_streams s ! streamId)) =
                 int (m_sampleLayout (m_streams s ! streamId)) \<and>
               int_of_size_t (GetNumRows (input_matrix (snd mx))) =
                 int (GetNumRows (input_matrix (snd mx))))"
proof -
  let ?expected = "GetNumRows (input_matrix (snd mx))"
  let ?rowNumber = "m_sampleLayout (m_streams s ! streamId)"
  let ?stream = "mb_data minibatch ! streamId"
  have yes: "fst (GetMinibatch_input B s minibatch mx) =
       Some (SampleSizeMismatch (int_of_size_t ?rowNumber) (c_str (fst mx))
               (int_of_size_t ?expected))"
    if "?expected \<noteq> 0 \<and> ?expected \<noteq> ?rowNumber"
    using that assms by (simp add: GetMinibatch_input_def Let_def)
  have no: "fst (GetMinibatch_input B s minibatch mx) \<noteq> Some (SampleSizeMismatch a n b)"
    if h: "\<not> (?expected \<noteq> 0 \<and> ?expected \<noteq> ?rowNumber)" for a n b
  proof (cases "FillMatrixFromStream B (m_storageType (m_streams s ! streamId))
                  (input_matrix (snd mx)) ?rowNumber ?stream")
    case (Inl e)
    then have "fst (GetMinibatch_input B s minibatch mx) = Some e"
      using h assms by (auto simp: GetMinibatch_input_def Let_def)
    then show ?thesis using FillMatrixFromStream_error [OF Inl] by auto
  next
    case (Inr filled)
    then have "fst (GetMinibatch_input B s minibatch mx) = None"
      using h assms by (auto simp: GetMinibatch_input_def Let_def)
    then show ?thesis by simp
  qed
  have iff: "(\<exists>a n b. fst (GetMinibatch_input B s minibatch mx) = Some (SampleSizeMismatch a n b))
            = (?expected \<noteq> 0 \<and> ?expected \<noteq> ?rowNumber)"
    using yes no by blast
  show ?thesis
    using iff yes by (simp add: int_of_size_t_small)
qed

theorem sample_size_mismatch_iff_witness:
  "map_of (m_nameToStreamId shim_sample8) (fst (''features'', empty_input 0 10)) = Some 0 \<and>
   0 < length (mb_data batch_data) \<and> 0 < length (m_streams shim_sample8) \<and>
   GetNumRows (input_matrix (snd (''features'', empty_input 0 10))) = 10 \<and>
   m_sampleLayout (m_streams shim_sample8 ! 0) = 8 \<and>
   fst (GetMinibatch_input B_debug shim_sample8 batch_data (''features'', empty_input 0 10)) =
     Some (SampleSizeMismatch 8 ''features'' 10) \<and>
   fst (GetMinibatch B_debug shim_sample8
          [(''features'', empty_input 0 10), (''labels'', empty_input 0 0)]) =
     Inl (SampleSizeMismatch 8 ''features'' 10) \<and>
   GetNumRows (input_matrix (snd (''features'', empty_input 0 0))) = 0 \<and>
   fst (GetMinibatch_input B_debug shim_sample8 batch_data (''features'', empty_input 0 0)) = None"
  using sample_size_mismatch_iff [of shim_sample8 "(''features'', empty_input 0 10)" 0
      batch_data B_debug]
    sample_size_mismatch_iff [of shim_sample8 "(''features'', empty_input 0 0)" 0
      batch_data B_debug]
  by (simp add: shim_sample8_def int_of_size_t_def c_str_def reader_after_def Let_def
        example_defs shim_defs decode_defs)

subsection \<open>The devices of the inputs\<close>

lemma GetMinibatch_input_no_assert:
  "fst (GetMinibatch_input B s mb mx) \<noteq> Some AssertionFailed"
proof (cases "map_of (m_nameToStreamId s) (fst mx)")
  case None
  then show ?thesis by (simp add: GetMinibatch_input_def)
next
  case (Some streamId)
  let ?fill = "FillMatrixFromStream B (m_storageType (m_streams s ! streamId))
      (input_matrix (snd mx)) (m_sampleLayout (m_streams s ! streamId)) (mb_data mb ! streamId)"
  show ?thesis
  proof (cases ?fill)
    case (Inl e)
    then show ?thesis
      using Some FillMatrixFromStream_error [OF Inl]
      by (auto simp: GetMinibatch_input_def Let_def)
  next
    case (Inr filled)
    then show ?thesis
      using Some by (auto simp: GetMinibatch_input_def Let_def)
  qed
qed

lemma GetMinibatch_loop_no_assert:
  "fst (GetMinibatch_loop B s mb ms) \<noteq> Some AssertionFailed"
proof (induction ms arbitrary: s)
  case Nil
  then show ?case by simp
next
  case (Cons mx ms)
  obtain r1 s1 mx1 where b: "GetMinibatch_input B s mb mx = (r1, s1, mx1)"
    by (cases "GetMinibatch_input B s mb mx") auto
  have n: "r1 \<noteq> Some AssertionFailed"
    using GetMinibatch_input_no_assert [of B s mb mx] b by simp
  show ?case
  proof (cases r1)
    case None
    obtain r2 s2 ms2 where l: "GetMinibatch_loop B s1 mb ms = (r2, s2, ms2)"
      by (cases "GetMinibatch_loop B s1 mb ms") auto
    then have "r2 \<noteq> Some AssertionFailed"
      using Cons.IH [of s1] by simp
    then show ?thesis using b None l by simp
  next
    case (Some e)
    then show ?thesis using b n by simp
  qed
qed

lemma GetMinibatch_loop_no_assert_dest:
  "GetMinibatch_loop B s mb ms = (Some AssertionFailed, s', ms') \<Longrightarrow> False"
  using GetMinibatch_loop_no_assert [of B s mb ms] by simp

text \<open>
  C8, as the code has it. The device ids are compared by an \<open>assert\<close>, after the count
  check and after the return at the end of the epoch. In a build with assertions, a call
  with the right number of inputs before the end of the epoch whose inputs are not all on
  the first input's device fails the assertion; the shim, the pending batch and the inputs
  are untouched. After the end of the epoch the call returns false without looking at the
  devices, and a build with \<open>NDEBUG\<close> never fails an assertion.
\<close>

theorem device_mismatch_asserted:
  "(length matrices = length (m_nameToStreamId s) \<and> \<not> m_endOfEpoch s \<and>
    \<not> same_device matrices \<and> \<not> NDEBUG B \<longrightarrow>
      GetMinibatch B s matrices = (Inl AssertionFailed, s, matrices))
   \<and> (length matrices = length (m_nameToStreamId s) \<and> m_endOfEpoch s \<longrightarrow>
        GetMinibatch B s matrices = (Inr False, s, matrices))
   \<and> (NDEBUG B \<longrightarrow> fst (GetMinibatch B s matrices) \<noteq> Inl AssertionFailed)"
proof -
  have a: "GetMinibatch B s matrices = (Inl AssertionFailed, s, matrices)"
    if h: "length matrices = length (m_nameToStreamId s)" "\<not> m_endOfEpoch s"
      "\<not> same_device matrices" "\<not> NDEBUG B"
  proof -
    obtain mx0 rest where m: "matrices = mx0 # rest"
      using h(3) by (cases matrices) (auto simp: same_device_def)
    show ?thesis
      using h unfolding m same_device_def GetMinibatch_def by (simp add: Let_def)
  qed
  have b: "GetMinibatch B s matrices = (Inr False, s, matrices)"
    if "length matrices = length (m_nameToStreamId s)" "m_endOfEpoch s"
    using that by (simp add: GetMinibatch_ended)
  have c: "fst (GetMinibatch B s matrices) \<noteq> Inl AssertionFailed" if n: "NDEBUG B"
    using n unfolding GetMinibatch_def
    by (auto simp: Let_def simp del: GetMinibatch_loop.simps
             dest: GetMinibatch_loop_no_assert_dest
             split: list.splits option.splits prod.splits if_splits)
  show ?thesis
    apply (intro conjI impI; (elim conjE)?)
      apply (rule a; assumption)
     apply (rule b; assumption)
    apply (rule c; assumption)
    done
qed

theorem device_mismatch_asserted_witness:
  "length mixed_inputs = length (m_nameToStreamId shim_eager_started) \<and>
   \<not> m_endOfEpoch shim_eager_started \<and> \<not> same_device mixed_inputs \<and> \<not> NDEBUG B_debug \<and>
   GetMinibatch B_debug shim_eager_started mixed_inputs =
     (Inl AssertionFailed, shim_eager_started, mixed_inputs) \<and>
   length mixed_inputs = length (m_nameToStreamId shim_lazy_ended) \<and>
   m_endOfEpoch shim_lazy_ended \<and>
   GetMinibatch B_debug shim_lazy_ended mixed_inputs = (Inr False, shim_lazy_ended, mixed_inputs) \<and>
   NDEBUG B_release \<and>
   fst (GetMinibatch B_release shim_eager_started mixed_inputs) \<noteq> Inl AssertionFailed"
  using device_mismatch_asserted [of mixed_inputs shim_eager_started B_debug]
    device_mismatch_asserted [of mixed_inputs shim_lazy_ended B_debug]
    device_mismatch_asserted [of mixed_inputs shim_eager_started B_release]
  by (simp add: mixed_inputs_def same_device_def shim_eager_started_def shim_lazy_ended_def
        shim_with_def empty_input_def cat2_def B_debug_def B_release_def)

text \<open>
  C8 as stated fails: with two inputs on the devices 0 and 1, a call after the end of the
  epoch returns false, and in a build with \<open>NDEBUG\<close> a call that fetches a batch with data
  copies it into both inputs and returns true.
\<close>

theorem device_mismatch_ignored_counterexample:
  "\<not> same_device mixed_inputs \<and>
   fst (GetMinibatch B_debug shim_lazy_ended mixed_inputs) = Inr False \<and>
   fst (GetMinibatch B_release shim_eager_started mixed_inputs) = Inr True \<and>
   snd (snd (GetMinibatch B_release shim_eager_started mixed_inputs)) =
     [(''features'', features_filled),
      (''labels'', labels_filled\<lparr>input_matrix := (input_matrix labels_filled)\<lparr>GetDeviceId := 1\<rparr>\<rparr>)]"
  by (simp add: mixed_inputs_def same_device_def shim_eager_started_def shim_lazy_ended_def
        reader_after_def Let_def B_release_def example_defs shim_defs decode_defs)

subsection \<open>What GetMinibatch returns\<close>



subsection \<open>The number of parallel sequences\<close>

lemma GetMinibatch_input_None:
  assumes "GetMinibatch_input B s mb mx = (None, s', mx')"
  shows "\<exists>streamId. map_of (m_nameToStreamId s) (fst mx) = Some streamId \<and>
           streamId < length (mb_data mb) \<and>
           m_numParallelSequences s' =
             GetNumParallelSequences_layout (m_layout (mb_data mb ! streamId))"
  using assms
  by (auto simp: GetMinibatch_input_def Let_def split: option.splits if_splits sum.splits)

lemma GetMinibatch_input_catalog:
  assumes "GetMinibatch_input B s mb mx = (r, s', mx')"
  shows "m_nameToStreamId s' = m_nameToStreamId s"
  using GetMinibatch_input_shim [OF assms]
  by (metis ReaderShim.select_convs(6) ReaderShim.surjective ReaderShim.update_convs(3))

lemma GetMinibatch_loop_last:
  assumes "GetMinibatch_loop B s mb ms = (None, s', ms')" and "ms \<noteq> []"
  shows "\<exists>streamId. map_of (m_nameToStreamId s) (fst (last ms)) = Some streamId \<and>
           streamId < length (mb_data mb) \<and>
           m_numParallelSequences s' =
             GetNumParallelSequences_layout (m_layout (mb_data mb ! streamId))"
  using assms
proof (induction ms arbitrary: s ms')
  case Nil
  then show ?case by simp
next
  case (Cons mx rest)
  obtain r1 s1 mx1 where b: "GetMinibatch_input B s mb mx = (r1, s1, mx1)"
    by (cases "GetMinibatch_input B s mb mx") auto
  obtain r2 s2 rest2 where l: "GetMinibatch_loop B s1 mb rest = (r2, s2, rest2)"
    by (cases "GetMinibatch_loop B s1 mb rest") auto
  have r1: "r1 = None"
    using Cons.prems(1) b by (cases r1) auto
  have r2: "r2 = None \<and> s2 = s'"
    using Cons.prems(1) b l r1 by simp
  show ?case
  proof (cases "rest = []")
    case True
    then have "s1 = s'" using l r2 by simp
    then show ?thesis
      using GetMinibatch_input_None [of B s mb mx s' mx1] b r1 True by simp
  next
    case False
    have "\<exists>streamId. map_of (m_nameToStreamId s1) (fst (last rest)) = Some streamId \<and>
           streamId < length (mb_data mb) \<and>
           m_numParallelSequences s' =
             GetNumParallelSequences_layout (m_layout (mb_data mb ! streamId))"
      using Cons.IH [of s1 rest2] l r2 False by simp
    then show ?thesis
      using False GetMinibatch_input_catalog [OF b] by simp
  qed
qed

lemma std_async_count:
  "m_numParallelSequences (std_async s) = m_numParallelSequences s"
  by (simp add: std_async_def split: launch.splits)

lemma GetMinibatch_no_data_count:
  assumes "m_endOfEpoch s \<or> length matrices \<noteq> length (m_nameToStreamId s) \<or>
           (case future_get s of None \<Rightarrow> True | Some x \<Rightarrow> mb_data (fst x) = [])"
  shows "m_numParallelSequences (fst (snd (GetMinibatch B s matrices))) = m_numParallelSequences s"
proof (cases "m_endOfEpoch s \<or> length matrices \<noteq> length (m_nameToStreamId s)")
  case True
  then show ?thesis by (auto simp: GetMinibatch_def Let_def)
next
  case False
  show ?thesis
  proof (cases "future_get s")
    case None
    then show ?thesis
      unfolding GetMinibatch_def
      by (auto simp: Let_def split: list.splits)
  next
    case (Some x)
    obtain mb s1 where x: "x = (mb, s1)" by (cases x) auto
    have e: "mb_data mb = []" using assms False Some x by simp
    have n: "m_numParallelSequences s1 = m_numParallelSequences s"
      using future_get_shim [of s mb s1] Some x by simp
    show ?thesis
      unfolding GetMinibatch_def
      using Some x e n
      by (auto simp: Let_def simp: std_async_count split: list.splits option.splits)
  qed
qed

lemma GetMinibatch_true_loop:
  assumes "GetMinibatch B s matrices = (Inr True, s', matrices')"
    and "future_get s = Some (minibatch, s1)"
  shows "matrices \<noteq> [] \<and>
         (\<exists>s3. GetMinibatch_loop B
                  (if mb_endOfEpoch minibatch then s1\<lparr>m_endOfEpoch := True\<rparr> else s1)
                  minibatch matrices = (None, s3, matrices') \<and>
               m_numParallelSequences s' = m_numParallelSequences s3)"
proof -
  let ?s2 = "if mb_endOfEpoch minibatch then s1\<lparr>m_endOfEpoch := True\<rparr> else s1"
  have ne: "\<not> m_endOfEpoch s"
    using assms(1) GetMinibatch_ended [of s B matrices] by (auto split: if_splits)
  note g = GetMinibatch_returns [OF assms(1) ne]
  have f: "GetMinibatch B s matrices =
       (if mb_endOfEpoch minibatch \<and> mb_data minibatch = []
        then (Inr False, ?s2, matrices)
        else
          (case (if mb_data minibatch \<noteq> []
                 then GetMinibatch_loop B ?s2 minibatch matrices
                 else (None, ?s2, matrices)) of
             (Some e, s3, matrices') \<Rightarrow> (Inl e, s3, matrices')
           | (None, s3, matrices') \<Rightarrow>
              (Inr (mb_data minibatch \<noteq> []),
               (if \<not> m_endOfEpoch s3 then std_async s3 else s3), matrices')))"
    using GetMinibatch_fetch [of matrices s B minibatch s1] g ne assms(2)
    by (simp add: Let_def)
  have d: "mb_data minibatch \<noteq> []"
    using f assms(1) by (auto split: if_splits option.splits)
  obtain rl sl ml where l: "GetMinibatch_loop B ?s2 minibatch matrices = (rl, sl, ml)"
    by (cases "GetMinibatch_loop B ?s2 minibatch matrices") auto
  have "rl = None \<and> ml = matrices' \<and> m_numParallelSequences s' = m_numParallelSequences sl"
    using f assms(1) d l
    by (cases rl) (auto simp del: GetMinibatch_loop.simps simp: std_async_count
                        split: if_splits option.splits)
  then show ?thesis using l g by auto
qed

text \<open>
  C10. (1) After \<open>Init\<close>, \<open>GetNumParallelSequences\<close> returns the first entry of the
  configured array \<open>nbruttsineachrecurrentiter\<close> as the assignment to the \<open>size_t\<close> member
  converts it: 1 when the key is not set, and the entry itself when it is not negative.
  The value does not depend on what the member held before. (2) \<open>StartDistributedMinibatchLoop\<close>
  keeps the value, and so does every \<open>GetMinibatch\<close> call after the end of the epoch,
  with a wrong number of inputs, or whose fetched batch has no data. (3) After a \<open>GetMinibatch\<close> call that returned true,
  the value is the number of parallel sequences of the layout of the stream that the
  catalogue gives for the last input.
\<close>

theorem GetNumParallelSequences_value:
  "(Init s config = Inr s' \<longrightarrow>
      GetNumParallelSequences s' =
        size_t_of_int (case nbruttsineachrecurrentiter config of None \<Rightarrow> 1 | Some xs \<Rightarrow> hd xs) \<and>
      (nbruttsineachrecurrentiter config = None \<longrightarrow> GetNumParallelSequences s' = 1) \<and>
      (nbruttsineachrecurrentiter config = Some (x # xs) \<and> 0 \<le> x \<and> x < 2 ^ 64 \<longrightarrow>
         int (GetNumParallelSequences s') = x))
   \<and> (StartDistributedMinibatchLoop s mbSize epoch subsetNum numSubsets samples = Inr s' \<longrightarrow>
        GetNumParallelSequences s' = GetNumParallelSequences s)
   \<and> (m_endOfEpoch s \<or> length matrices \<noteq> length (m_nameToStreamId s) \<or>
       (case future_get s of None \<Rightarrow> True | Some fetched \<Rightarrow> mb_data (fst fetched) = []) \<longrightarrow>
        GetNumParallelSequences (fst (snd (GetMinibatch B s matrices))) =
          GetNumParallelSequences s)
   \<and> (GetMinibatch B s matrices = (Inr True, s', matrices') \<and>
       future_get s = Some (minibatch, s1) \<longrightarrow>
        matrices \<noteq> [] \<and>
        (\<exists>streamId. map_of (m_nameToStreamId s) (fst (last matrices)) = Some streamId \<and>
           streamId < length (mb_data minibatch) \<and>
           GetNumParallelSequences s' =
             GetNumParallelSequences_layout (m_layout (mb_data minibatch ! streamId))))"
proof -
  have a: "GetNumParallelSequences s' =
        size_t_of_int (case nbruttsineachrecurrentiter config of None \<Rightarrow> 1 | Some xs \<Rightarrow> hd xs)"
    if "Init s config = Inr s'"
    using that
    by (auto simp: Init_def Let_def GetNumParallelSequences_def split: option.splits list.splits)
  have a1: "GetNumParallelSequences s' = 1"
    if "Init s config = Inr s'" "nbruttsineachrecurrentiter config = None"
    using a [OF that(1)] that(2) by (simp add: size_t_of_int_def)
  have a2: "int (GetNumParallelSequences s') = x"
    if "Init s config = Inr s'" "nbruttsineachrecurrentiter config = Some (x # xs)"
      "0 \<le> x" "x < 2 ^ 64"
    using a [OF that(1)] that(2,3,4) by (simp add: size_t_of_int_def)
  have b: "GetNumParallelSequences s' = GetNumParallelSequences s"
    if "StartDistributedMinibatchLoop s mbSize epoch subsetNum numSubsets samples = Inr s'"
    using that
    by (auto simp: StartDistributedMinibatchLoop_def Let_def GetNumParallelSequences_def
             simp: std_async_count split: option.splits)
  have c: "GetNumParallelSequences (fst (snd (GetMinibatch B s matrices))) =
          GetNumParallelSequences s"
    if "m_endOfEpoch s \<or> length matrices \<noteq> length (m_nameToStreamId s) \<or>
       (case future_get s of None \<Rightarrow> True | Some fetched \<Rightarrow> mb_data (fst fetched) = [])"
    using GetMinibatch_no_data_count [OF that] by (simp add: GetNumParallelSequences_def)
  have d: "matrices \<noteq> [] \<and>
        (\<exists>streamId. map_of (m_nameToStreamId s) (fst (last matrices)) = Some streamId \<and>
           streamId < length (mb_data minibatch) \<and>
           GetNumParallelSequences s' =
             GetNumParallelSequences_layout (m_layout (mb_data minibatch ! streamId)))"
    if h: "GetMinibatch B s matrices = (Inr True, s', matrices')"
      "future_get s = Some (minibatch, s1)"
  proof -
    let ?s2 = "if mb_endOfEpoch minibatch then s1\<lparr>m_endOfEpoch := True\<rparr> else s1"
    obtain s3 where ne: "matrices \<noteq> []"
      and l: "GetMinibatch_loop B ?s2 minibatch matrices = (None, s3, matrices')"
      and n: "m_numParallelSequences s' = m_numParallelSequences s3"
      using GetMinibatch_true_loop [OF h] by blast
    have cat: "m_nameToStreamId ?s2 = m_nameToStreamId s"
      using future_get_shim [OF h(2)] by simp
    show ?thesis
      using GetMinibatch_loop_last [OF l ne] ne n cat
      by (simp add: GetNumParallelSequences_def)
  qed
  show ?thesis
    apply (intro conjI impI; (elim conjE)?)
          apply (rule a; assumption)
         apply (rule a1; assumption)
        apply (rule a2; assumption)
       apply (rule b; assumption)
      apply (rule c; assumption)
     apply (rule d [THEN conjunct1]; assumption)
    apply (rule d [THEN conjunct2]; assumption)
    done
qed

theorem GetNumParallelSequences_value_witness:
  "Init (ReaderShim_ctor test_factory deferred 0 True)
      \<lparr>nbruttsineachrecurrentiter = Some [3, 5], prefetch = None\<rparr> =
     Inr ((shim_with cat2 (reader_after 0 [batch_data, batch_last]) async True no_state)
            \<lparr>m_numParallelSequences := 3\<rparr>) \<and>
   GetNumParallelSequences
     ((shim_with cat2 (reader_after 0 [batch_data, batch_last]) async True no_state)
        \<lparr>m_numParallelSequences := 3\<rparr>) = 3 \<and>
   Init (ReaderShim_ctor test_factory deferred 0 True)
      \<lparr>nbruttsineachrecurrentiter = None, prefetch = None\<rparr> =
     Inr (shim_with cat2 (reader_after 0 [batch_data, batch_last]) async True no_state) \<and>
   GetNumParallelSequences
     (shim_with cat2 (reader_after 0 [batch_data, batch_last]) async True no_state) = 1 \<and>
   StartDistributedMinibatchLoop
     (shim_with cat2 (reader_after 0 [batch_data, batch_last]) async True no_state) 2 0 0 1 10 =
     Inr (shim_with cat2 (reader_after 0 [batch_data, batch_last]) async False async_task) \<and>
   GetNumParallelSequences
     (shim_with cat2 (reader_after 0 [batch_data, batch_last]) async False async_task) = 1 \<and>
   \<not> m_endOfEpoch shim_lazy_last \<and>
   map_option (\<lambda>fetched. mb_data (fst fetched)) (future_get shim_lazy_last) = Some [] \<and>
   GetNumParallelSequences (fst (snd (GetMinibatch B_debug shim_lazy_last two_inputs))) = 1 \<and>
   GetMinibatch B_debug shim_eager_started two_inputs =
     (Inr True,
      (shim_with cat2 (reader_after 1 [batch_last]) async False async_task)
         \<lparr>m_numParallelSequences := 2\<rparr>,
      two_inputs_filled) \<and>
   future_get shim_eager_started =
     Some (batch_data, shim_with cat2 (reader_after 1 [batch_last]) async False no_state) \<and>
   map_of (m_nameToStreamId shim_eager_started) (fst (last two_inputs)) = Some 1 \<and>
   GetNumParallelSequences_layout (m_layout (mb_data batch_data ! 1)) = 2 \<and>
   GetNumParallelSequences
     ((shim_with cat2 (reader_after 1 [batch_last]) async False async_task)
        \<lparr>m_numParallelSequences := 2\<rparr>) = 2"
  using GetNumParallelSequences_value [where s = "ReaderShim_ctor test_factory deferred 0 True"
      and config = "\<lparr>nbruttsineachrecurrentiter = Some [3, 5], prefetch = None\<rparr>"
      and s' = "(shim_with cat2 (reader_after 0 [batch_data, batch_last]) async True no_state)
            \<lparr>m_numParallelSequences := 3\<rparr>" and x = 3 and xs = "[5]"]
    GetNumParallelSequences_value [where s = "ReaderShim_ctor test_factory deferred 0 True"
      and config = "\<lparr>nbruttsineachrecurrentiter = None, prefetch = None\<rparr>"
      and s' = "shim_with cat2 (reader_after 0 [batch_data, batch_last]) async True no_state"]
    GetNumParallelSequences_value [where
      s = "shim_with cat2 (reader_after 0 [batch_data, batch_last]) async True no_state"
      and mbSize = 2 and epoch = 0 and subsetNum = 0 and numSubsets = 1 and samples = 10
      and s' = "shim_with cat2 (reader_after 0 [batch_data, batch_last]) async False async_task"]
    GetNumParallelSequences_value [where s = shim_lazy_last and B = B_debug
      and matrices = two_inputs]
    GetNumParallelSequences_value [where s = shim_eager_started
      and s' = "(shim_with cat2 (reader_after 1 [batch_last]) async False async_task)
         \<lparr>m_numParallelSequences := 2\<rparr>"
      and B = B_debug and matrices = two_inputs and matrices' = two_inputs_filled
      and minibatch = batch_data
      and ?s1.0 = "shim_with cat2 (reader_after 1 [batch_last]) async False no_state"]
  by (simp add: Init_def Let_def ReaderShim_ctor_def size_t_of_int_def
        StartDistributedMinibatchLoop_def GetNumParallelSequences_def
        shim_eager_started_def shim_lazy_last_def reader_after_def
        example_defs shim_defs decode_defs)

end
